theory Spec2Isabelle
  imports Main "HOL-Library.Word" "HOL-Library.Log_Nat"
begin

section \<open>ShaderGenCommon.h: the shader uid\<close>

type_synonym u8 = "8 word"
type_synonym u32 = "32 word"
type_synonym size_t = "64 word"

text \<open>
  \<^verbatim>\<open>ShaderUid<uid_data>\<close> holds a union of the configuration record \<^verbatim>\<open>data\<close> with the byte
  array \<^verbatim>\<open>values[sizeof(uid_data)]\<close>, and the cached hash \<^verbatim>\<open>HASH\<close>. The record type
  \<^verbatim>\<open>uid_data\<close> is the template parameter: its declaration is not part of
  ShaderGenCommon.h, so the bytes are kept as the list \<open>values\<close> (of length
  \<^verbatim>\<open>sizeof(uid_data)\<close>), and what the record type declares, \<^verbatim>\<open>StartValue()\<close> and
  \<^verbatim>\<open>NumValues()\<close>, are the parameters \<open>sv\<close> and \<open>nv\<close> of the operations below.
  \<^verbatim>\<open>HashAdler32\<close> (Common/Hash.h) is the parameter \<open>hash\<close>.
\<close>

record ShaderUid =
  "values" :: "u8 list"
  HASH :: size_t

text \<open>The constructor \<^verbatim>\<open>ShaderUid() : HASH(0) {}\<close> leaves the bytes as they are.\<close>

definition ShaderUid_ctor :: "u8 list \<Rightarrow> ShaderUid" where
  "ShaderUid_ctor bytes = \<lparr>values = bytes, HASH = 0\<rparr>"

text \<open>\<^verbatim>\<open>memset(values, 0, sizeof(uid_data))\<close>\<close>

definition ClearUID :: "ShaderUid \<Rightarrow> ShaderUid" where
  "ClearUID s = s\<lparr>values := replicate (length (values s)) 0\<rparr>"

text \<open>
  The bytes \<^verbatim>\<open>values + data.StartValue()\<close> up to \<^verbatim>\<open>data.NumValues()\<close> of them: what
  the hash and the three comparisons read. (A range that ends past the record is read
  past it in C++; here it ends with the record.)
\<close>

definition uid_range :: "nat \<Rightarrow> nat \<Rightarrow> ShaderUid \<Rightarrow> u8 list" where
  "uid_range sv nv s = take nv (drop sv (values s))"

definition CalculateUIDHash :: "(u8 list \<Rightarrow> u32) \<Rightarrow> nat \<Rightarrow> nat \<Rightarrow> ShaderUid \<Rightarrow> ShaderUid" where
  "CalculateUIDHash hash sv nv s =
     (if HASH s = 0 then s\<lparr>HASH := ucast (hash (uid_range sv nv s))\<rparr> else s)"

text \<open>
  \<^verbatim>\<open>operator==\<close>, \<^verbatim>\<open>operator!=\<close> and \<^verbatim>\<open>operator<\<close> are \<^verbatim>\<open>memcmp\<close> over the range,
  compared with 0. \<^verbatim>\<open>memcmp\<close> orders two byte sequences of one length by their first
  differing byte, read as unsigned.
\<close>

fun memcmp :: "u8 list \<Rightarrow> u8 list \<Rightarrow> int" where
  "memcmp (x # xs) (y # ys) = (if x < y then - 1 else if y < x then 1 else memcmp xs ys)"
| "memcmp _ _ = 0"

definition operator_eq :: "nat \<Rightarrow> nat \<Rightarrow> ShaderUid \<Rightarrow> ShaderUid \<Rightarrow> bool" where
  "operator_eq sv nv this obj = (memcmp (uid_range sv nv this) (uid_range sv nv obj) = 0)"

definition operator_ne :: "nat \<Rightarrow> nat \<Rightarrow> ShaderUid \<Rightarrow> ShaderUid \<Rightarrow> bool" where
  "operator_ne sv nv this obj = (memcmp (uid_range sv nv this) (uid_range sv nv obj) \<noteq> 0)"

definition operator_less :: "nat \<Rightarrow> nat \<Rightarrow> ShaderUid \<Rightarrow> ShaderUid \<Rightarrow> bool" where
  "operator_less sv nv this obj = (memcmp (uid_range sv nv this) (uid_range sv nv obj) < 0)"

definition GetUidDataSize :: "ShaderUid \<Rightarrow> nat" where
  "GetUidDataSize s = length (values s)"

text \<open>
  Modelled from the spec: \<^verbatim>\<open>HashAdler32\<close> of Common/Hash.h, which is not among the
  files. The spec gives it as Adler-32: two running sums modulo 65521, the first
  starting at 1, combined as \<open>(sum2 << 16) | sum1\<close>. It stands in for the parameter
  \<open>hash\<close> where a concrete hash is needed.
\<close>

fun adler_sums :: "nat \<times> nat \<Rightarrow> u8 list \<Rightarrow> nat \<times> nat" where
  "adler_sums (a, b) [] = (a, b)"
| "adler_sums (a, b) (x # xs) =
     (let a' = (a + unat x) mod 65521 in adler_sums (a', (b + a') mod 65521) xs)"

text \<open>
  Modelled from the spec: the two sums of \<^verbatim>\<open>HashAdler32\<close> over all the bytes, combined
  into the 32-bit checksum.
\<close>

definition HashAdler32 :: "u8 list \<Rightarrow> u32" where
  "HashAdler32 bytes = (case adler_sums (1, 0) bytes of (a, b) \<Rightarrow> of_nat (b * 65536 + a))"

section \<open>ShaderGenCommon.h: the uid checker\<close>

subsection \<open>Stream and printf formatting\<close>

definition digit_char :: "nat \<Rightarrow> char" where
  "digit_char d = ''0123456789abcdef'' ! d"

text \<open>An unsigned value in decimal (\<^verbatim>\<open>std::dec\<close>, \<^verbatim>\<open>%d\<close>) and in hexadecimal (\<^verbatim>\<open>std::hex\<close>, \<^verbatim>\<open>%x\<close>).\<close>

fun dec_digits :: "nat \<Rightarrow> string" where
  "dec_digits n = (if n < 10 then [digit_char n] else dec_digits (n div 10) @ [digit_char (n mod 10)])"

fun hex_digits :: "nat \<Rightarrow> string" where
  "hex_digits n = (if n < 16 then [digit_char n] else hex_digits (n div 16) @ [digit_char (n mod 16)])"

declare dec_digits.simps [simp del]
declare hex_digits.simps [simp del]

text \<open>\<^verbatim>\<open>std::setw(n)\<close> with \<^verbatim>\<open>std::setfill(c)\<close>: the field is filled on the left up to width \<open>n\<close>.\<close>

definition setw :: "nat \<Rightarrow> char \<Rightarrow> string \<Rightarrow> string" where
  "setw n c s = replicate (n - length s) c @ s"

text \<open>\<^verbatim>\<open>%04i\<close>: at least four characters, zeros after the sign.\<close>

definition printf_04i :: "int \<Rightarrow> string" where
  "printf_04i n =
     (if n < 0 then CHR ''-'' # setw 3 (CHR ''0'') (dec_digits (nat (- n)))
      else setw 4 (CHR ''0'') (dec_digits (nat n)))"

subsection \<open>The map of shader texts\<close>

text \<open>
  \<^verbatim>\<open>std::map<UidT, std::string>\<close> finds a key by the order alone: a stored key \<open>k'\<close> is
  the key \<open>k\<close> when neither is less than the other. The map is kept as the list of its
  entries; \<^verbatim>\<open>operator[]\<close> gives the entry of the key and first adds one with the empty
  string when there is none.
\<close>

type_synonym 'k std_map = "('k \<times> string) list"

fun map_find :: "('k \<Rightarrow> 'k \<Rightarrow> bool) \<Rightarrow> 'k std_map \<Rightarrow> 'k \<Rightarrow> string option" where
  "map_find lt [] k = None"
| "map_find lt ((k', v) # m) k =
     (if \<not> lt k' k \<and> \<not> lt k k' then Some v else map_find lt m k)"

text \<open>\<^verbatim>\<open>m[k] = v\<close>\<close>

fun map_assign :: "('k \<Rightarrow> 'k \<Rightarrow> bool) \<Rightarrow> 'k std_map \<Rightarrow> 'k \<Rightarrow> string \<Rightarrow> 'k std_map" where
  "map_assign lt [] k v = [(k, v)]"
| "map_assign lt ((k', v') # m) k v =
     (if \<not> lt k' k \<and> \<not> lt k k' then (k', v) # m else (k', v') # map_assign lt m k v)"

text \<open>\<^verbatim>\<open>auto& old_code = m[k]\<close>: the text read, and the map after the access.\<close>

definition map_index :: "('k \<Rightarrow> 'k \<Rightarrow> bool) \<Rightarrow> 'k std_map \<Rightarrow> 'k \<Rightarrow> string \<times> 'k std_map" where
  "map_index lt m k =
     (case map_find lt m k of
        Some v \<Rightarrow> (v, m)
      | None \<Rightarrow> ([], map_assign lt m k []))"

subsection \<open>UidChecker\<close>

text \<open>
  \<^verbatim>\<open>UidChecker<UidT, CodeT>\<close> with \<^verbatim>\<open>UidT = ShaderUid<uid_data>\<close>. Besides its two
  members the record holds what \<^verbatim>\<open>AddToIndexAndCheck\<close> changes outside the object: the
  function's \<^verbatim>\<open>static int num_failures\<close>, the dump files it has written (path and
  contents, in order) and the lines it has passed to \<^verbatim>\<open>ERROR_LOG\<close>.
\<close>

record UidChecker =
  m_shaders :: "ShaderUid std_map"
  m_uids :: "ShaderUid list"
  num_failures :: int
  dump_files :: "(string \<times> string) list"
  error_log :: "string list"

definition Invalidate :: "UidChecker \<Rightarrow> UidChecker" where
  "Invalidate c = c\<lparr>m_shaders := [], m_uids := []\<rparr>"

text \<open>
  One round of the dump loop, for the counter \<open>i\<close>. \<open>u32_at i\<close> is
  \<^verbatim>\<open>((u32*)&new_uid.GetUidData())[i]\<close>, the \<open>i\<close>-th 32-bit word from the address of the
  record: the counter runs over \<^verbatim>\<open>GetUidDataSize()\<close>, the size in bytes, so from a quarter
  of the way on the word lies past the record, and what is read there is a parameter.
\<close>

definition dump_value :: "(nat \<Rightarrow> u32) \<Rightarrow> nat \<Rightarrow> nat \<Rightarrow> string" where
  "dump_value u32_at sz i =
     (if i mod 4 = 0
      then (let last_value = (if i + 3 < sz - 1 then i + 3 else sz)
            in ''Values '' @ setw 2 (CHR '' '') (dec_digits i) @ '' - '' @ dec_digits last_value @ '': '')
      else []) @
     setw 8 (CHR ''0'') (hex_digits (unat (u32_at i))) @
     (if i mod 4 < 3 then '' '' else ''\<newline>'')"

definition dump_uid :: "(nat \<Rightarrow> u32) \<Rightarrow> nat \<Rightarrow> string" where
  "dump_uid u32_at sz = concat (map (dump_value u32_at sz) [0..<sz])"

text \<open>
  \<open>user_path\<close> is \<^verbatim>\<open>File::GetUserPath(D_DUMP_IDX)\<close>; \<open>new_code\<close> is the C string at
  \<^verbatim>\<open>new_code.GetBuffer()\<close>, the characters before its terminator.
\<close>

definition AddToIndexAndCheck ::
  "nat \<Rightarrow> nat \<Rightarrow> string \<Rightarrow> (ShaderUid \<Rightarrow> nat \<Rightarrow> u32) \<Rightarrow>
   string \<Rightarrow> ShaderUid \<Rightarrow> string \<Rightarrow> string \<Rightarrow> UidChecker \<Rightarrow> UidChecker" where
  "AddToIndexAndCheck sv nv user_path u32_view new_code new_uid shader_type dump_prefix c =
     (let uid_is_indexed = list_ex (\<lambda>u. operator_eq sv nv u new_uid) (m_uids c) in
      if \<not> uid_is_indexed
      then c\<lparr>m_uids := m_uids c @ [new_uid],
             m_shaders := map_assign (operator_less sv nv) (m_shaders c) new_uid new_code\<rparr>
      else
        (case map_index (operator_less sv nv) (m_shaders c) new_uid of
           (old_code, shaders) \<Rightarrow>
             if old_code \<noteq> new_code
             then
               (let n = num_failures c + 1;
                    szTemp = user_path @ dump_prefix @ ''suid_mismatch_'' @ printf_04i n @ ''.txt'';
                    contents =
                      ''Old shader code:\<newline>'' @ old_code @
                      ''\<newline>\<newline>New shader code:\<newline>'' @ new_code @
                      ''\<newline>\<newline>Shader uid:\<newline>'' @
                      dump_uid (u32_view new_uid) (GetUidDataSize new_uid)
                in c\<lparr>m_shaders := shaders,
                      num_failures := n,
                      dump_files := dump_files c @ [(szTemp, contents)],
                      error_log := error_log c @
                        [shader_type @ '' shader uid mismatch! See '' @ szTemp @ '' for details'']\<rparr>)
             else c\<lparr>m_shaders := shaders\<rparr>))"

text \<open>A checker as it is constructed, before anything has run.\<close>

definition UidChecker_new :: UidChecker where
  "UidChecker_new = \<lparr>m_shaders = [], m_uids = [], num_failures = 0, dump_files = [], error_log = []\<rparr>"

subsection \<open>Runs of a checker, and what stays true of it\<close>

datatype checker_op =
  Add string ShaderUid string string
| Inv

fun run_op ::
  "nat \<Rightarrow> nat \<Rightarrow> string \<Rightarrow> (ShaderUid \<Rightarrow> nat \<Rightarrow> u32) \<Rightarrow> UidChecker \<Rightarrow> checker_op \<Rightarrow> UidChecker" where
  "run_op sv nv user_path u32_view c (Add new_code new_uid shader_type dump_prefix) =
     AddToIndexAndCheck sv nv user_path u32_view new_code new_uid shader_type dump_prefix c"
| "run_op sv nv user_path u32_view c Inv = Invalidate c"

definition run_ops ::
  "nat \<Rightarrow> nat \<Rightarrow> string \<Rightarrow> (ShaderUid \<Rightarrow> nat \<Rightarrow> u32) \<Rightarrow> checker_op list \<Rightarrow> UidChecker \<Rightarrow> UidChecker" where
  "run_ops sv nv user_path u32_view ops c = foldl (run_op sv nv user_path u32_view) c ops"

text \<open>No uid of the list is \<^verbatim>\<open>==\<close> to a later one: each fingerprint is there once.\<close>

fun uids_once :: "nat \<Rightarrow> nat \<Rightarrow> ShaderUid list \<Rightarrow> bool" where
  "uids_once sv nv [] = True"
| "uids_once sv nv (u # us) = (\<not> list_ex (operator_eq sv nv u) us \<and> uids_once sv nv us)"

text \<open>
  Each fingerprint is once in \<open>m_uids\<close> and once among the keys of \<open>m_shaders\<close>, and the
  keys of \<open>m_shaders\<close> are the uids of \<open>m_uids\<close>.
\<close>

definition checker_inv :: "nat \<Rightarrow> nat \<Rightarrow> UidChecker \<Rightarrow> bool" where
  "checker_inv sv nv c =
     (uids_once sv nv (m_uids c) \<and>
      uids_once sv nv (map fst (m_shaders c)) \<and>
      set (map fst (m_shaders c)) = set (m_uids c))"

text \<open>
  The hex dump in the words of the specification: groups of four words, one group to a
  line. Group \<open>g\<close> holds the words \<open>4 * g\<close> up to \<open>4 * g + 3\<close> that the counter reaches.
\<close>

definition group_words :: "(nat \<Rightarrow> u32) \<Rightarrow> nat \<Rightarrow> nat \<Rightarrow> string list" where
  "group_words u32_at sz g =
     map (\<lambda>i. setw 8 (CHR ''0'') (hex_digits (unat (u32_at i)))) [4 * g..<min (4 * g + 4) sz]"

definition dump_group :: "(nat \<Rightarrow> u32) \<Rightarrow> nat \<Rightarrow> nat \<Rightarrow> string" where
  "dump_group u32_at sz g =
     ''Values '' @ setw 2 (CHR '' '') (dec_digits (4 * g)) @ '' - '' @
     dec_digits (if 4 * g + 3 < sz - 1 then 4 * g + 3 else sz) @ '': '' @
     concat (map (\<lambda>w. w @ '' '') (take 3 (group_words u32_at sz g))) @
     concat (map (\<lambda>w. w @ ''\<newline>'') (drop 3 (group_words u32_at sz g)))"

definition is_hex_digit :: "char \<Rightarrow> bool" where
  "is_hex_digit ch = (ch \<in> set ''0123456789abcdef'')"

text \<open>
  The calls of \<^verbatim>\<open>AddToIndexAndCheck\<close> since the last \<^verbatim>\<open>Invalidate\<close> (or since the
  checker was constructed), as pairs of the fingerprint and the text, in order.
\<close>

definition calls_since_Invalidate :: "checker_op list \<Rightarrow> (ShaderUid \<times> string) list" where
  "calls_since_Invalidate ops =
     foldl (\<lambda>calls op. case op of Add new_code new_uid shader_type dump_prefix \<Rightarrow> calls @ [(new_uid, new_code)]
                                 | Inv \<Rightarrow> []) [] ops"

text \<open>The text of the first call for \<open>U\<close> since the last \<^verbatim>\<open>Invalidate\<close>, if there is one.\<close>

definition first_text :: "nat \<Rightarrow> nat \<Rightarrow> ShaderUid \<Rightarrow> checker_op list \<Rightarrow> string option" where
  "first_text sv nv U ops =
     map_option snd (find (\<lambda>(V, T). operator_eq sv nv V U) (calls_since_Invalidate ops))"

text \<open>The fingerprints that the calls of a run were made with.\<close>

definition uids_of :: "checker_op list \<Rightarrow> ShaderUid list" where
  "uids_of ops =
     concat (map (\<lambda>op. case op of Add new_code new_uid shader_type dump_prefix \<Rightarrow> [new_uid] | Inv \<Rightarrow> []) ops)"

text \<open>
  The text that the map associates with \<open>U\<close>, if any (\<^verbatim>\<open>m_shaders.find(U)\<close>), and
  whether \<open>U\<close> is in the index (\<^verbatim>\<open>std::find\<close> over \<^verbatim>\<open>m_uids\<close>, by \<^verbatim>\<open>operator==\<close>).
\<close>

definition stored_text :: "nat \<Rightarrow> nat \<Rightarrow> UidChecker \<Rightarrow> ShaderUid \<Rightarrow> string option" where
  "stored_text sv nv c U = map_find (operator_less sv nv) (m_shaders c) U"

definition is_indexed :: "nat \<Rightarrow> nat \<Rightarrow> UidChecker \<Rightarrow> ShaderUid \<Rightarrow> bool" where
  "is_indexed sv nv c U = list_ex (\<lambda>u. operator_eq sv nv u U) (m_uids c)"

section \<open>TextureConversionShader.cpp\<close>

subsection \<open>What the file takes from elsewhere\<close>

text \<open>
  The codes of \<^verbatim>\<open>u32 format\<close> that the \<^verbatim>\<open>switch\<close> of \<^verbatim>\<open>GenerateEncodingShader\<close> names, and
  \<open>Other_format\<close> for any code that is none of them. The enumerators are declared in
  VideoCommon/TextureDecoder.h, which is not among the files, so a code is kept by its
  name and not by its number.
\<close>

datatype TextureFormat =
  GX_TF_I4 | GX_TF_I8 | GX_TF_IA4 | GX_TF_IA8 | GX_TF_RGB565 | GX_TF_RGB5A3 | GX_TF_RGBA8
| GX_CTF_R4 | GX_CTF_RA4 | GX_CTF_RA8 | GX_CTF_A8 | GX_CTF_R8 | GX_CTF_G8 | GX_CTF_B8
| GX_CTF_RG8 | GX_CTF_GB8
| GX_TF_Z8 | GX_TF_Z16 | GX_TF_Z24X8
| GX_CTF_Z4 | GX_CTF_Z8M | GX_CTF_Z8L | GX_CTF_Z16L
| Other_format u32

text \<open>
  The macros \<^verbatim>\<open>I_COLORS\<close> (a string literal, pasted into the format strings: an
  identifier, with no conversion specification in it) and \<^verbatim>\<open>C_COLORS\<close>, and the
  functions of the texture decoder that the swizzlers call. None is declared in the
  two files; they are the parameter \<open>X\<close> of everything below.
\<close>

record externals =
  I_COLORS :: string
  C_COLORS :: u32
  TexDecoder_GetBlockWidthInTexels :: "TextureFormat \<Rightarrow> int"
  TexDecoder_GetBlockHeightInTexels :: "TextureFormat \<Rightarrow> int"
  GetEncodedSampleCount :: "TextureFormat \<Rightarrow> int"

subsection \<open>Floats and printf\<close>

text \<open>
  A \<^verbatim>\<open>float\<close> is the rational it stands for, or infinity. \<open>float_of_int\<close> is the cast
  \<^verbatim>\<open>(float)\<close> of a machine integer: exact below \<open>2 ^ 24\<close>, and rounded to 24
  significant bits, ties to even, above.
\<close>

datatype float_value = Finite rat | Infinity

definition round_half_even :: "rat \<Rightarrow> int" where
  "round_half_even q =
     (let f = \<lfloor>q\<rfloor>; r = q - of_int f
      in if r < 1 / 2 then f else if 1 / 2 < r then f + 1 else if even f then f else f + 1)"

definition float_of_int :: "int \<Rightarrow> float_value" where
  "float_of_int n =
     (let e = nat (bitlen \<bar>n\<bar> - 24)
      in Finite (of_int (sgn n * round_half_even (of_int \<bar>n\<bar> / 2 ^ e)) * 2 ^ e))"

text \<open>\<^verbatim>\<open>%d\<close> and \<^verbatim>\<open>%i\<close> of an \<^verbatim>\<open>int\<close>, \<^verbatim>\<open>%x\<close> of a \<^verbatim>\<open>u32\<close>.\<close>

definition printf_d :: "int \<Rightarrow> string" where
  "printf_d n = (if n < 0 then CHR ''-'' # dec_digits (nat (- n)) else dec_digits (nat n))"

definition printf_x :: "u32 \<Rightarrow> string" where
  "printf_x w = hex_digits (unat w)"

text \<open>
  \<^verbatim>\<open>%f\<close>: six digits after the point, the value rounded to them (ties to even). The
  point is \<open>.\<close>: \<^verbatim>\<open>GenerateEncodingShader\<close> switches the thread to the C locale for the
  time of the generation.
\<close>

definition printf_f :: "float_value \<Rightarrow> string" where
  "printf_f x =
     (case x of
        Infinity \<Rightarrow> ''inf''
      | Finite q \<Rightarrow>
          (let n = round_half_even (\<bar>q\<bar> * 1000000)
           in (if q < 0 then ''-'' else []) @ dec_digits (nat (n div 1000000)) @ ''.'' @
              setw 6 (CHR ''0'') (dec_digits (nat (n mod 1000000)))))"

subsection \<open>The state of the generator\<close>

text \<open>
  The three statics of the file, \<^verbatim>\<open>text[16384]\<close> (here \<open>text_buf\<close>),
  \<^verbatim>\<open>IntensityConstantAdded\<close> and \<^verbatim>\<open>s_incrementSampleXCount\<close>; the cursor \<open>p\<close>, as an
  offset into \<open>text_buf\<close>; and the messages passed to \<^verbatim>\<open>PanicAlert\<close>, in order. \<open>p\<close> is the
  local \<^verbatim>\<open>char* p\<close> of \<^verbatim>\<open>GenerateEncodingShader\<close>: the encoders take it by value and the
  helpers by reference, and nothing reads a caller's copy after the callee has moved
  its own, so one cursor is kept.
\<close>

record gen_state =
  text_buf :: "char list"
  p :: nat
  IntensityConstantAdded :: bool
  s_incrementSampleXCount :: int
  PanicAlerts :: "string list"

definition sizeof_text :: nat where
  "sizeof_text = 16384"

text \<open>The statics as the program starts: a zeroed buffer, \<^verbatim>\<open>false\<close> and 0.\<close>

definition gen_initial :: gen_state where
  "gen_initial =
     \<lparr>text_buf = replicate sizeof_text (CHR 0x00), p = 0, IntensityConstantAdded = False,
      s_incrementSampleXCount = 0, PanicAlerts = []\<rparr>"

text \<open>
  Storing the bytes \<open>cs\<close> from offset \<open>i\<close> on. A byte stored past the end of the array
  lands in whatever follows the array and is not seen in it again: here it is dropped.
\<close>

fun poke :: "nat \<Rightarrow> char list \<Rightarrow> char list \<Rightarrow> char list" where
  "poke i [] buf = buf"
| "poke i (c # cs) buf = poke (Suc i) cs (buf[i := c])"

text \<open>
  \<^verbatim>\<open>#define WRITE p+=sprintf\<close>: \<^verbatim>\<open>sprintf(p, ...)\<close> stores the formatted characters and
  a terminating 0 at \<open>p\<close> and returns the number of characters without the 0. \<open>str\<close> is
  the formatted string.
\<close>

definition WRITE :: "string \<Rightarrow> gen_state \<Rightarrow> gen_state" where
  "WRITE str s = s\<lparr>text_buf := poke (p s) (str @ [CHR 0x00]) (text_buf s), p := p s + length str\<rparr>"

definition PanicAlert :: "string \<Rightarrow> gen_state \<Rightarrow> gen_state" where
  "PanicAlert msg s = s\<lparr>PanicAlerts := PanicAlerts s @ [msg]\<rparr>"

text \<open>Statements one after another.\<close>

definition stmts :: "('s \<Rightarrow> 's) list \<Rightarrow> 's \<Rightarrow> 's" where
  "stmts cs s = fold (\<lambda>c. c) cs s"

subsection \<open>The helpers of the encoders\<close>

definition WriteRegister :: "string \<Rightarrow> u32 \<Rightarrow> string" where
  "WriteRegister prefix num = '' : register('' @ prefix @ printf_d (sint num) @ '')''"

definition WriteSwizzler :: "externals \<Rightarrow> TextureFormat \<Rightarrow> gen_state \<Rightarrow> gen_state" where
  "WriteSwizzler X format =
     (let blkW = float_of_int (TexDecoder_GetBlockWidthInTexels X format);
          blkH = float_of_int (TexDecoder_GetBlockHeightInTexels X format);
          samples = float_of_int (GetEncodedSampleCount X format)
      in stmts
        [WRITE (''uniform float4 '' @ I_COLORS X @ ''[2] '' @ WriteRegister ''c'' (C_COLORS X) @ '';\<newline>''),
         WRITE ''uniform sampler samp0 : register(s0);\<newline>'',
         WRITE ''void main(\<newline>'',
         WRITE ''  out float4 ocol0 : SV_Target,\<newline>'',
         WRITE ''  in float2 uv0 : TEXCOORD0)\<newline>'',
         WRITE (''{\<newline>'' @ ''  float2 sampleUv;\<newline>'' @ ''  float2 uv1 = floor(uv0);\<newline>''),
         WRITE (''  uv1.x = uv1.x * '' @ printf_f samples @ '';\<newline>''),
         WRITE (''  float xl =  floor(uv1.x / '' @ printf_f blkW @ '');\<newline>''),
         WRITE (''  float xib = uv1.x - (xl * '' @ printf_f blkW @ '');\<newline>''),
         WRITE (''  float yl = floor(uv1.y / '' @ printf_f blkH @ '');\<newline>''),
         WRITE (''  float yb = yl * '' @ printf_f blkH @ '';\<newline>''),
         WRITE ''  float yoff = uv1.y - yb;\<newline>'',
         WRITE (''  float xp = uv1.x + (yoff * '' @ I_COLORS X @ ''[1].x);\<newline>''),
         WRITE (''  float xel = floor(xp / '' @ printf_f blkW @ '');\<newline>''),
         WRITE (''  float xb = floor(xel / '' @ printf_f blkH @ '');\<newline>''),
         WRITE (''  float xoff = xel - (xb * '' @ printf_f blkH @ '');\<newline>''),
         WRITE (''  sampleUv.x = xib + (xb * '' @ printf_f blkW @ '');\<newline>''),
         WRITE ''  sampleUv.y = yb + xoff;\<newline>'',
         WRITE (''  sampleUv = sampleUv * '' @ I_COLORS X @ ''[0].xy;\<newline>''),
         WRITE (''  sampleUv = sampleUv + '' @ I_COLORS X @ ''[1].zw;\<newline>''),
         WRITE ''  sampleUv = sampleUv + float2(0.0f,1.0f);\<newline>'',
         WRITE (''  sampleUv = sampleUv / '' @ I_COLORS X @ ''[0].zw;\<newline>'')])"

definition Write32BitSwizzler :: "externals \<Rightarrow> TextureFormat \<Rightarrow> gen_state \<Rightarrow> gen_state" where
  "Write32BitSwizzler X format =
     (let blkW = float_of_int (TexDecoder_GetBlockWidthInTexels X format);
          blkH = float_of_int (TexDecoder_GetBlockHeightInTexels X format)
      in stmts
        [WRITE (''uniform float4 '' @ I_COLORS X @ ''[2] '' @ WriteRegister ''c'' (C_COLORS X) @ '';\<newline>''),
         WRITE ''uniform sampler samp0 : register(s0);\<newline>'',
         WRITE ''void main(\<newline>'',
         WRITE ''  out float4 ocol0 : COLOR0,\<newline>'',
         WRITE ''  in float2 uv0 : TEXCOORD0)\<newline>'',
         WRITE (''{\<newline>'' @ ''  float2 sampleUv;\<newline>'' @ ''  float2 uv1 = floor(uv0);\<newline>''),
         WRITE (''  float yl = floor(uv1.y / '' @ printf_f blkH @ '');\<newline>''),
         WRITE (''  float yb = yl * '' @ printf_f blkH @ '';\<newline>''),
         WRITE ''  float yoff = uv1.y - yb;\<newline>'',
         WRITE (''  float xp = uv1.x + (yoff * '' @ I_COLORS X @ ''[1].x);\<newline>''),
         WRITE ''  float xel = floor(xp / 2.0f);\<newline>'',
         WRITE (''  float xb = floor(xel / '' @ printf_f blkH @ '');\<newline>''),
         WRITE (''  float xoff = xel - (xb * '' @ printf_f blkH @ '');\<newline>''),
         WRITE ''  float x2 = uv1.x * 2.0f;\<newline>'',
         WRITE (''  float xl = floor(x2 / '' @ printf_f blkW @ '');\<newline>''),
         WRITE (''  float xib = x2 - (xl * '' @ printf_f blkW @ '');\<newline>''),
         WRITE ''  float halfxb = floor(xb / 2.0f);\<newline>'',
         WRITE (''  sampleUv.x = xib + (halfxb * '' @ printf_f blkW @ '');\<newline>''),
         WRITE ''  sampleUv.y = yb + xoff;\<newline>'',
         WRITE (''  sampleUv = sampleUv * '' @ I_COLORS X @ ''[0].xy;\<newline>''),
         WRITE (''  sampleUv = sampleUv + '' @ I_COLORS X @ ''[1].zw;\<newline>''),
         WRITE ''  sampleUv = sampleUv + float2(0.0f,1.0f);\<newline>'',
         WRITE (''  sampleUv = sampleUv / '' @ I_COLORS X @ ''[0].zw;\<newline>'')])"

definition WriteSampleColor :: "externals \<Rightarrow> string \<Rightarrow> string \<Rightarrow> gen_state \<Rightarrow> gen_state" where
  "WriteSampleColor X colorComp dest s =
     WRITE (''  '' @ dest @ '' = tex2D(samp0, sampleUv + float2('' @
            printf_d (s_incrementSampleXCount s) @ ''.0f * ('' @ I_COLORS X @ ''[0].x / '' @
            I_COLORS X @ ''[0].z), 0.0f)).'' @ colorComp @ '';\<newline>'') s"

definition WriteColorToIntensity :: "string \<Rightarrow> string \<Rightarrow> gen_state \<Rightarrow> gen_state" where
  "WriteColorToIntensity src dest s =
     WRITE (''  '' @ dest @ '' = dot(IntensityConst.rgb, '' @ src @ ''.rgb);\<newline>'')
       (if \<not> IntensityConstantAdded s
        then (WRITE ''  float4 IntensityConst = float4(0.257f,0.504f,0.098f,0.0625f);\<newline>'' s)
               \<lparr>IntensityConstantAdded := True\<rparr>
        else s)"

definition WriteIncrementSampleX :: "gen_state \<Rightarrow> gen_state" where
  "WriteIncrementSampleX s = s\<lparr>s_incrementSampleXCount := s_incrementSampleXCount s + 1\<rparr>"

text \<open>
  \<^verbatim>\<open>float result = 255 / pow(2.0f, (8 - depth))\<close> with \<^verbatim>\<open>u8 depth\<close>: the power of two
  and the quotient are exact, and the quotient is a \<^verbatim>\<open>float\<close> as long as it is not above
  the largest one, which \<open>255 * 2 ^ 120\<close> is the last to be.
\<close>

definition bit_depth_result :: "u8 \<Rightarrow> float_value" where
  "bit_depth_result depth =
     (if unat depth \<le> 8 then Finite (255 / 2 ^ (8 - unat depth))
      else if unat depth \<le> 128 then Finite (255 * 2 ^ (unat depth - 8))
      else Infinity)"

definition WriteToBitDepth :: "u8 \<Rightarrow> string \<Rightarrow> string \<Rightarrow> gen_state \<Rightarrow> gen_state" where
  "WriteToBitDepth depth src dest =
     WRITE (''  '' @ dest @ '' = floor('' @ src @ '' * '' @ printf_f (bit_depth_result depth) @ ''f);\<newline>'')"

definition WriteEncoderEnd :: "gen_state \<Rightarrow> gen_state" where
  "WriteEncoderEnd s =
     (WRITE ''}\<newline>'' s)\<lparr>IntensityConstantAdded := False, s_incrementSampleXCount := 0\<rparr>"

subsection \<open>The encoders\<close>

definition WriteI8Encoder :: "externals \<Rightarrow> gen_state \<Rightarrow> gen_state" where
  "WriteI8Encoder X = stmts
    [WriteSwizzler X GX_TF_I8,
     WRITE ''  float3 texSample;\<newline>'',
     WriteSampleColor X ''rgb'' ''texSample'',
     WriteColorToIntensity ''texSample'' ''ocol0.b'',
     WriteIncrementSampleX,
     WriteSampleColor X ''rgb'' ''texSample'',
     WriteColorToIntensity ''texSample'' ''ocol0.g'',
     WriteIncrementSampleX,
     WriteSampleColor X ''rgb'' ''texSample'',
     WriteColorToIntensity ''texSample'' ''ocol0.r'',
     WriteIncrementSampleX,
     WriteSampleColor X ''rgb'' ''texSample'',
     WriteColorToIntensity ''texSample'' ''ocol0.a'',
     WRITE ''  ocol0.rgba += IntensityConst.aaaa;\<newline>'',
     WriteEncoderEnd]"

definition WriteI4Encoder :: "externals \<Rightarrow> gen_state \<Rightarrow> gen_state" where
  "WriteI4Encoder X = stmts
    [WriteSwizzler X GX_TF_I4,
     WRITE ''  float3 texSample;\<newline>'',
     WRITE ''  float4 color0;\<newline>'',
     WRITE ''  float4 color1;\<newline>'',
     WriteSampleColor X ''rgb'' ''texSample'',
     WriteColorToIntensity ''texSample'' ''color0.b'',
     WriteIncrementSampleX,
     WriteSampleColor X ''rgb'' ''texSample'',
     WriteColorToIntensity ''texSample'' ''color1.b'',
     WriteIncrementSampleX,
     WriteSampleColor X ''rgb'' ''texSample'',
     WriteColorToIntensity ''texSample'' ''color0.g'',
     WriteIncrementSampleX,
     WriteSampleColor X ''rgb'' ''texSample'',
     WriteColorToIntensity ''texSample'' ''color1.g'',
     WriteIncrementSampleX,
     WriteSampleColor X ''rgb'' ''texSample'',
     WriteColorToIntensity ''texSample'' ''color0.r'',
     WriteIncrementSampleX,
     WriteSampleColor X ''rgb'' ''texSample'',
     WriteColorToIntensity ''texSample'' ''color1.r'',
     WriteIncrementSampleX,
     WriteSampleColor X ''rgb'' ''texSample'',
     WriteColorToIntensity ''texSample'' ''color0.a'',
     WriteIncrementSampleX,
     WriteSampleColor X ''rgb'' ''texSample'',
     WriteColorToIntensity ''texSample'' ''color1.a'',
     WRITE ''  color0.rgba += IntensityConst.aaaa;\<newline>'',
     WRITE ''  color1.rgba += IntensityConst.aaaa;\<newline>'',
     WriteToBitDepth 4 ''color0'' ''color0'',
     WriteToBitDepth 4 ''color1'' ''color1'',
     WRITE ''  ocol0 = (color0 * 16.0f + color1) / 255.0f;\<newline>'',
     WriteEncoderEnd]"

definition WriteIA8Encoder :: "externals \<Rightarrow> gen_state \<Rightarrow> gen_state" where
  "WriteIA8Encoder X = stmts
    [WriteSwizzler X GX_TF_IA8,
     WRITE ''  float4 texSample;\<newline>'',
     WriteSampleColor X ''rgba'' ''texSample'',
     WRITE ''  ocol0.b = texSample.a;\<newline>'',
     WriteColorToIntensity ''texSample'' ''ocol0.g'',
     WriteIncrementSampleX,
     WriteSampleColor X ''rgba'' ''texSample'',
     WRITE ''  ocol0.r = texSample.a;\<newline>'',
     WriteColorToIntensity ''texSample'' ''ocol0.a'',
     WRITE ''  ocol0.ga += IntensityConst.aa;\<newline>'',
     WriteEncoderEnd]"

definition WriteIA4Encoder :: "externals \<Rightarrow> gen_state \<Rightarrow> gen_state" where
  "WriteIA4Encoder X = stmts
    [WriteSwizzler X GX_TF_IA4,
     WRITE ''  float4 texSample;\<newline>'',
     WRITE ''  float4 color0;\<newline>'',
     WRITE ''  float4 color1;\<newline>'',
     WriteSampleColor X ''rgba'' ''texSample'',
     WRITE ''  color0.b = texSample.a;\<newline>'',
     WriteColorToIntensity ''texSample'' ''color1.b'',
     WriteIncrementSampleX,
     WriteSampleColor X ''rgba'' ''texSample'',
     WRITE ''  color0.g = texSample.a;\<newline>'',
     WriteColorToIntensity ''texSample'' ''color1.g'',
     WriteIncrementSampleX,
     WriteSampleColor X ''rgba'' ''texSample'',
     WRITE ''  color0.r = texSample.a;\<newline>'',
     WriteColorToIntensity ''texSample'' ''color1.r'',
     WriteIncrementSampleX,
     WriteSampleColor X ''rgba'' ''texSample'',
     WRITE ''  color0.a = texSample.a;\<newline>'',
     WriteColorToIntensity ''texSample'' ''color1.a'',
     WRITE ''  color1.rgba += IntensityConst.aaaa;\<newline>'',
     WriteToBitDepth 4 ''color0'' ''color0'',
     WriteToBitDepth 4 ''color1'' ''color1'',
     WRITE ''  ocol0 = (color0 * 16.0f + color1) / 255.0f;\<newline>'',
     WriteEncoderEnd]"

definition WriteRGB565Encoder :: "externals \<Rightarrow> gen_state \<Rightarrow> gen_state" where
  "WriteRGB565Encoder X = stmts
    [WriteSwizzler X GX_TF_RGB565,
     WriteSampleColor X ''rgb'' ''float3 texSample0'',
     WriteIncrementSampleX,
     WriteSampleColor X ''rgb'' ''float3 texSample1'',
     WRITE ''  float2 texRs = float2(texSample0.r, texSample1.r);\<newline>'',
     WRITE ''  float2 texGs = float2(texSample0.g, texSample1.g);\<newline>'',
     WRITE ''  float2 texBs = float2(texSample0.b, texSample1.b);\<newline>'',
     WriteToBitDepth 6 ''texGs'' ''float2 gInt'',
     WRITE ''  float2 gUpper = floor(gInt / 8.0f);\<newline>'',
     WRITE ''  float2 gLower = gInt - gUpper * 8.0f;\<newline>'',
     WriteToBitDepth 5 ''texRs'' ''ocol0.br'',
     WRITE ''  ocol0.br = ocol0.br * 8.0f + gUpper;\<newline>'',
     WriteToBitDepth 5 ''texBs'' ''ocol0.ga'',
     WRITE ''  ocol0.ga = ocol0.ga + gLower * 32.0f;\<newline>'',
     WRITE ''  ocol0 = ocol0 / 255.0f;\<newline>'',
     WriteEncoderEnd]"

definition WriteRGB5A3Encoder :: "externals \<Rightarrow> gen_state \<Rightarrow> gen_state" where
  "WriteRGB5A3Encoder X = stmts
    [WriteSwizzler X GX_TF_RGB5A3,
     WRITE ''  float4 texSample;\<newline>'',
     WRITE ''  float color0;\<newline>'',
     WRITE ''  float gUpper;\<newline>'',
     WRITE ''  float gLower;\<newline>'',
     WriteSampleColor X ''rgba'' ''texSample'',
     WRITE ''if(texSample.a > 0.878f) {\<newline>'',
     WriteToBitDepth 5 ''texSample.g'' ''color0'',
     WRITE ''  gUpper = floor(color0 / 8.0f);\<newline>'',
     WRITE ''  gLower = color0 - gUpper * 8.0f;\<newline>'',
     WriteToBitDepth 5 ''texSample.r'' ''ocol0.b'',
     WRITE ''  ocol0.b = ocol0.b * 4.0f + gUpper + 128.0f;\<newline>'',
     WriteToBitDepth 5 ''texSample.b'' ''ocol0.g'',
     WRITE ''  ocol0.g = ocol0.g + gLower * 32.0f;\<newline>'',
     WRITE ''} else {\<newline>'',
     WriteToBitDepth 4 ''texSample.r'' ''ocol0.b'',
     WriteToBitDepth 4 ''texSample.b'' ''ocol0.g'',
     WriteToBitDepth 3 ''texSample.a'' ''color0'',
     WRITE ''ocol0.b = ocol0.b + color0 * 16.0f;\<newline>'',
     WriteToBitDepth 4 ''texSample.g'' ''color0'',
     WRITE ''ocol0.g = ocol0.g + color0 * 16.0f;\<newline>'',
     WRITE ''}\<newline>'',
     WriteIncrementSampleX,
     WriteSampleColor X ''rgba'' ''texSample'',
     WRITE ''if(texSample.a > 0.878f) {\<newline>'',
     WriteToBitDepth 5 ''texSample.g'' ''color0'',
     WRITE ''  gUpper = floor(color0 / 8.0f);\<newline>'',
     WRITE ''  gLower = color0 - gUpper * 8.0f;\<newline>'',
     WriteToBitDepth 5 ''texSample.r'' ''ocol0.r'',
     WRITE ''  ocol0.r = ocol0.r * 4.0f + gUpper + 128.0f;\<newline>'',
     WriteToBitDepth 5 ''texSample.b'' ''ocol0.a'',
     WRITE ''  ocol0.a = ocol0.a + gLower * 32.0f;\<newline>'',
     WRITE ''} else {\<newline>'',
     WriteToBitDepth 4 ''texSample.r'' ''ocol0.r'',
     WriteToBitDepth 4 ''texSample.b'' ''ocol0.a'',
     WriteToBitDepth 3 ''texSample.a'' ''color0'',
     WRITE ''ocol0.r = ocol0.r + color0 * 16.0f;\<newline>'',
     WriteToBitDepth 4 ''texSample.g'' ''color0'',
     WRITE ''ocol0.a = ocol0.a + color0 * 16.0f;\<newline>'',
     WRITE ''}\<newline>'',
     WRITE ''  ocol0 = ocol0 / 255.0f;\<newline>'',
     WriteEncoderEnd]"

definition WriteRGBA4443Encoder :: "externals \<Rightarrow> gen_state \<Rightarrow> gen_state" where
  "WriteRGBA4443Encoder X = stmts
    [WriteSwizzler X GX_TF_RGB5A3,
     WRITE ''  float4 texSample;\<newline>'',
     WRITE ''  float4 color0;\<newline>'',
     WRITE ''  float4 color1;\<newline>'',
     WriteSampleColor X ''rgba'' ''texSample'',
     WriteToBitDepth 3 ''texSample.a'' ''color0.b'',
     WriteToBitDepth 4 ''texSample.r'' ''color1.b'',
     WriteToBitDepth 4 ''texSample.g'' ''color0.g'',
     WriteToBitDepth 4 ''texSample.b'' ''color1.g'',
     WriteIncrementSampleX,
     WriteSampleColor X ''rgba'' ''texSample'',
     WriteToBitDepth 3 ''texSample.a'' ''color0.r'',
     WriteToBitDepth 4 ''texSample.r'' ''color1.r'',
     WriteToBitDepth 4 ''texSample.g'' ''color0.a'',
     WriteToBitDepth 4 ''texSample.b'' ''color1.a'',
     WRITE ''  ocol0 = (color0 * 16.0f + color1) / 255.0f;\<newline>'',
     WriteEncoderEnd]"

definition WriteRGBA8Encoder :: "externals \<Rightarrow> gen_state \<Rightarrow> gen_state" where
  "WriteRGBA8Encoder X = stmts
    [Write32BitSwizzler X GX_TF_RGBA8,
     WRITE ''  float cl1 = xb - (halfxb * 2.0f);\<newline>'',
     WRITE ''  float cl0 = 1.0f - cl1;\<newline>'',
     WRITE ''  float4 texSample;\<newline>'',
     WRITE ''  float4 color0;\<newline>'',
     WRITE ''  float4 color1;\<newline>'',
     WriteSampleColor X ''rgba'' ''texSample'',
     WRITE ''  color0.b = texSample.a;\<newline>'',
     WRITE ''  color0.g = texSample.r;\<newline>'',
     WRITE ''  color1.b = texSample.g;\<newline>'',
     WRITE ''  color1.g = texSample.b;\<newline>'',
     WriteIncrementSampleX,
     WriteSampleColor X ''rgba'' ''texSample'',
     WRITE ''  color0.r = texSample.a;\<newline>'',
     WRITE ''  color0.a = texSample.r;\<newline>'',
     WRITE ''  color1.r = texSample.g;\<newline>'',
     WRITE ''  color1.a = texSample.b;\<newline>'',
     WRITE ''  ocol0 = (cl0 * color0) + (cl1 * color1);\<newline>'',
     WriteEncoderEnd]"

definition WriteC4Encoder :: "externals \<Rightarrow> string \<Rightarrow> gen_state \<Rightarrow> gen_state" where
  "WriteC4Encoder X comp' = stmts
    [WriteSwizzler X GX_CTF_R4,
     WRITE ''  float4 color0;\<newline>'',
     WRITE ''  float4 color1;\<newline>'',
     WriteSampleColor X comp' ''color0.b'',
     WriteIncrementSampleX,
     WriteSampleColor X comp' ''color1.b'',
     WriteIncrementSampleX,
     WriteSampleColor X comp' ''color0.g'',
     WriteIncrementSampleX,
     WriteSampleColor X comp' ''color1.g'',
     WriteIncrementSampleX,
     WriteSampleColor X comp' ''color0.r'',
     WriteIncrementSampleX,
     WriteSampleColor X comp' ''color1.r'',
     WriteIncrementSampleX,
     WriteSampleColor X comp' ''color0.a'',
     WriteIncrementSampleX,
     WriteSampleColor X comp' ''color1.a'',
     WriteToBitDepth 4 ''color0'' ''color0'',
     WriteToBitDepth 4 ''color1'' ''color1'',
     WRITE ''  ocol0 = (color0 * 16.0f + color1) / 255.0f;\<newline>'',
     WriteEncoderEnd]"

definition WriteC8Encoder :: "externals \<Rightarrow> string \<Rightarrow> gen_state \<Rightarrow> gen_state" where
  "WriteC8Encoder X comp' = stmts
    [WriteSwizzler X GX_CTF_R8,
     WriteSampleColor X comp' ''ocol0.b'',
     WriteIncrementSampleX,
     WriteSampleColor X comp' ''ocol0.g'',
     WriteIncrementSampleX,
     WriteSampleColor X comp' ''ocol0.r'',
     WriteIncrementSampleX,
     WriteSampleColor X comp' ''ocol0.a'',
     WriteEncoderEnd]"

definition WriteCC4Encoder :: "externals \<Rightarrow> string \<Rightarrow> gen_state \<Rightarrow> gen_state" where
  "WriteCC4Encoder X comp' = stmts
    [WriteSwizzler X GX_CTF_RA4,
     WRITE ''  float2 texSample;\<newline>'',
     WRITE ''  float4 color0;\<newline>'',
     WRITE ''  float4 color1;\<newline>'',
     WriteSampleColor X comp' ''texSample'',
     WRITE ''  color0.b = texSample.x;\<newline>'',
     WRITE ''  color1.b = texSample.y;\<newline>'',
     WriteIncrementSampleX,
     WriteSampleColor X comp' ''texSample'',
     WRITE ''  color0.g = texSample.x;\<newline>'',
     WRITE ''  color1.g = texSample.y;\<newline>'',
     WriteIncrementSampleX,
     WriteSampleColor X comp' ''texSample'',
     WRITE ''  color0.r = texSample.x;\<newline>'',
     WRITE ''  color1.r = texSample.y;\<newline>'',
     WriteIncrementSampleX,
     WriteSampleColor X comp' ''texSample'',
     WRITE ''  color0.a = texSample.x;\<newline>'',
     WRITE ''  color1.a = texSample.y;\<newline>'',
     WriteToBitDepth 4 ''color0'' ''color0'',
     WriteToBitDepth 4 ''color1'' ''color1'',
     WRITE ''  ocol0 = (color0 * 16.0f + color1) / 255.0f;\<newline>'',
     WriteEncoderEnd]"

definition WriteCC8Encoder :: "externals \<Rightarrow> string \<Rightarrow> gen_state \<Rightarrow> gen_state" where
  "WriteCC8Encoder X comp' = stmts
    [WriteSwizzler X GX_CTF_RA8,
     WriteSampleColor X comp' ''ocol0.bg'',
     WriteIncrementSampleX,
     WriteSampleColor X comp' ''ocol0.ra'',
     WriteEncoderEnd]"

definition WriteZ8Encoder :: "externals \<Rightarrow> string \<Rightarrow> gen_state \<Rightarrow> gen_state" where
  "WriteZ8Encoder X multiplier = stmts
    [WriteSwizzler X GX_CTF_Z8M,
     WRITE '' float depth;\<newline>'',
     WriteSampleColor X ''b'' ''depth'',
     WRITE (''ocol0.b = frac(depth * '' @ multiplier @ '');\<newline>''),
     WriteIncrementSampleX,
     WriteSampleColor X ''b'' ''depth'',
     WRITE (''ocol0.g = frac(depth * '' @ multiplier @ '');\<newline>''),
     WriteIncrementSampleX,
     WriteSampleColor X ''b'' ''depth'',
     WRITE (''ocol0.r = frac(depth * '' @ multiplier @ '');\<newline>''),
     WriteIncrementSampleX,
     WriteSampleColor X ''b'' ''depth'',
     WRITE (''ocol0.a = frac(depth * '' @ multiplier @ '');\<newline>''),
     WriteEncoderEnd]"

definition WriteZ16Encoder :: "externals \<Rightarrow> gen_state \<Rightarrow> gen_state" where
  "WriteZ16Encoder X = stmts
    [WriteSwizzler X GX_TF_Z16,
     WRITE ''  float depth;\<newline>'',
     WRITE ''  float3 expanded;\<newline>'',
     WriteSampleColor X ''b'' ''depth'',
     WRITE ''  depth *= 16777215.0f;\<newline>'',
     WRITE ''  expanded.r = floor(depth / (256.0f * 256.0f));\<newline>'',
     WRITE ''  depth -= expanded.r * 256.0f * 256.0f;\<newline>'',
     WRITE ''  expanded.g = floor(depth / 256.0f);\<newline>'',
     WRITE ''  ocol0.b = expanded.g / 255.0f;\<newline>'',
     WRITE ''  ocol0.g = expanded.r / 255.0f;\<newline>'',
     WriteIncrementSampleX,
     WriteSampleColor X ''b'' ''depth'',
     WRITE ''  depth *= 16777215.0f;\<newline>'',
     WRITE ''  expanded.r = floor(depth / (256.0f * 256.0f));\<newline>'',
     WRITE ''  depth -= expanded.r * 256.0f * 256.0f;\<newline>'',
     WRITE ''  expanded.g = floor(depth / 256.0f);\<newline>'',
     WRITE ''  ocol0.r = expanded.g / 255.0f;\<newline>'',
     WRITE ''  ocol0.a = expanded.r / 255.0f;\<newline>'',
     WriteEncoderEnd]"

definition WriteZ16LEncoder :: "externals \<Rightarrow> gen_state \<Rightarrow> gen_state" where
  "WriteZ16LEncoder X = stmts
    [WriteSwizzler X GX_CTF_Z16L,
     WRITE ''  float depth;\<newline>'',
     WRITE ''  float3 expanded;\<newline>'',
     WriteSampleColor X ''b'' ''depth'',
     WRITE ''  depth *= 16777215.0f;\<newline>'',
     WRITE ''  expanded.r = floor(depth / (256.0f * 256.0f));\<newline>'',
     WRITE ''  depth -= expanded.r * 256.0f * 256.0f;\<newline>'',
     WRITE ''  expanded.g = floor(depth / 256.0f);\<newline>'',
     WRITE ''  depth -= expanded.g * 256.0f;\<newline>'',
     WRITE ''  expanded.b = depth;\<newline>'',
     WRITE ''  ocol0.b = expanded.b / 255.0f;\<newline>'',
     WRITE ''  ocol0.g = expanded.g / 255.0f;\<newline>'',
     WriteIncrementSampleX,
     WriteSampleColor X ''b'' ''depth'',
     WRITE ''  depth *= 16777215.0f;\<newline>'',
     WRITE ''  expanded.r = floor(depth / (256.0f * 256.0f));\<newline>'',
     WRITE ''  depth -= expanded.r * 256.0f * 256.0f;\<newline>'',
     WRITE ''  expanded.g = floor(depth / 256.0f);\<newline>'',
     WRITE ''  depth -= expanded.g * 256.0f;\<newline>'',
     WRITE ''  expanded.b = depth;\<newline>'',
     WRITE ''  ocol0.r = expanded.b / 255.0f;\<newline>'',
     WRITE ''  ocol0.a = expanded.g / 255.0f;\<newline>'',
     WriteEncoderEnd]"

text \<open>One round of the loop of \<^verbatim>\<open>WriteZ24Encoder\<close>, for the counter \<open>i\<close>.\<close>

definition WriteZ24Encoder_loop :: "int \<Rightarrow> gen_state \<Rightarrow> gen_state" where
  "WriteZ24Encoder_loop i = stmts
    [WRITE (''  depth'' @ printf_d i @ '' *= 16777215.0f;\<newline>''),
     WRITE (''  expanded'' @ printf_d i @ ''.r = floor(depth'' @ printf_d i @ '' / (256.0f * 256.0f));\<newline>''),
     WRITE (''  depth'' @ printf_d i @ '' -= expanded'' @ printf_d i @ ''.r * 256.0f * 256.0f;\<newline>''),
     WRITE (''  expanded'' @ printf_d i @ ''.g = floor(depth'' @ printf_d i @ '' / 256.0f);\<newline>''),
     WRITE (''  depth'' @ printf_d i @ '' -= expanded'' @ printf_d i @ ''.g * 256.0f;\<newline>''),
     WRITE (''  expanded'' @ printf_d i @ ''.b = depth'' @ printf_d i @ '';\<newline>'')]"

definition WriteZ24Encoder :: "externals \<Rightarrow> gen_state \<Rightarrow> gen_state" where
  "WriteZ24Encoder X = stmts
    [Write32BitSwizzler X GX_TF_Z24X8,
     WRITE ''  float cl = xb - (halfxb * 2.0f);\<newline>'',
     WRITE ''  float depth0;\<newline>'',
     WRITE ''  float depth1;\<newline>'',
     WRITE ''  float3 expanded0;\<newline>'',
     WRITE ''  float3 expanded1;\<newline>'',
     WriteSampleColor X ''b'' ''depth0'',
     WriteIncrementSampleX,
     WriteSampleColor X ''b'' ''depth1'',
     stmts (map WriteZ24Encoder_loop [0, 1]),
     WRITE ''  if(cl > 0.5f) {\<newline>'',
     WRITE ''     ocol0.b = expanded0.g / 255.0f;\<newline>'',
     WRITE ''     ocol0.g = expanded0.b / 255.0f;\<newline>'',
     WRITE ''     ocol0.r = expanded1.g / 255.0f;\<newline>'',
     WRITE ''     ocol0.a = expanded1.b / 255.0f;\<newline>'',
     WRITE ''  } else {\<newline>'',
     WRITE ''     ocol0.b = 1.0f;\<newline>'',
     WRITE ''     ocol0.g = expanded0.r / 255.0f;\<newline>'',
     WRITE ''     ocol0.r = 1.0f;\<newline>'',
     WRITE ''     ocol0.a = expanded1.r / 255.0f;\<newline>'',
     WRITE ''  }\<newline>'',
     WriteEncoderEnd]"

subsection \<open>The dispatcher\<close>

definition unknown_format_alert :: "u32 \<Rightarrow> string" where
  "unknown_format_alert format = ''Unknown texture copy format: 0x'' @ printf_x format @ ''\<newline>''"

definition canary_alert :: string where
  "canary_alert = ''TextureConversionShader generator - buffer too small, canary has been eaten!''"

text \<open>The \<^verbatim>\<open>switch\<close> of \<^verbatim>\<open>GenerateEncodingShader\<close>.\<close>

fun dispatch :: "externals \<Rightarrow> TextureFormat \<Rightarrow> gen_state \<Rightarrow> gen_state" where
  "dispatch X GX_TF_I4 = WriteI4Encoder X"
| "dispatch X GX_TF_I8 = WriteI8Encoder X"
| "dispatch X GX_TF_IA4 = WriteIA4Encoder X"
| "dispatch X GX_TF_IA8 = WriteIA8Encoder X"
| "dispatch X GX_TF_RGB565 = WriteRGB565Encoder X"
| "dispatch X GX_TF_RGB5A3 = WriteRGB5A3Encoder X"
| "dispatch X GX_TF_RGBA8 = WriteRGBA8Encoder X"
| "dispatch X GX_CTF_R4 = WriteC4Encoder X ''r''"
| "dispatch X GX_CTF_RA4 = WriteCC4Encoder X ''ar''"
| "dispatch X GX_CTF_RA8 = WriteCC8Encoder X ''ar''"
| "dispatch X GX_CTF_A8 = WriteC8Encoder X ''a''"
| "dispatch X GX_CTF_R8 = WriteC8Encoder X ''r''"
| "dispatch X GX_CTF_G8 = WriteC8Encoder X ''g''"
| "dispatch X GX_CTF_B8 = WriteC8Encoder X ''b''"
| "dispatch X GX_CTF_RG8 = WriteCC8Encoder X ''rg''"
| "dispatch X GX_CTF_GB8 = WriteCC8Encoder X ''gb''"
| "dispatch X GX_TF_Z8 = WriteC8Encoder X ''b''"
| "dispatch X GX_TF_Z16 = WriteZ16Encoder X"
| "dispatch X GX_TF_Z24X8 = WriteZ24Encoder X"
| "dispatch X GX_CTF_Z4 = WriteC4Encoder X ''b''"
| "dispatch X GX_CTF_Z8M = WriteZ8Encoder X ''256.0f''"
| "dispatch X GX_CTF_Z8L = WriteZ8Encoder X ''65536.0f''"
| "dispatch X GX_CTF_Z16L = WriteZ16LEncoder X"
| "dispatch X (Other_format format) = PanicAlert (unknown_format_alert format)"

text \<open>
  \<^verbatim>\<open>text[sizeof(text) - 1] = 0x7C\<close>, \<^verbatim>\<open>char *p = text\<close>, the \<^verbatim>\<open>switch\<close>, and the check of
  the canary. The function returns \<^verbatim>\<open>text\<close> in every case, also after an alert.
\<close>

definition set_canary :: "gen_state \<Rightarrow> gen_state" where
  "set_canary s = s\<lparr>text_buf := (text_buf s)[sizeof_text - 1 := CHR 0x7C], p := 0\<rparr>"

definition check_canary :: "gen_state \<Rightarrow> gen_state" where
  "check_canary s =
     (if text_buf s ! (sizeof_text - 1) \<noteq> CHR 0x7C then PanicAlert canary_alert s else s)"

definition GenerateEncodingShader :: "externals \<Rightarrow> TextureFormat \<Rightarrow> gen_state \<Rightarrow> gen_state" where
  "GenerateEncodingShader X format s = check_canary (dispatch X format (set_canary s))"

text \<open>The C string at \<^verbatim>\<open>text\<close>, which is what the caller receives.\<close>

definition c_str :: "char list \<Rightarrow> string" where
  "c_str buf = takeWhile (\<lambda>c. c \<noteq> CHR 0x00) buf"

text \<open>The requests \<open>fs\<close> one after another.\<close>

definition generate_all :: "externals \<Rightarrow> TextureFormat list \<Rightarrow> gen_state \<Rightarrow> gen_state" where
  "generate_all X fs s = foldl (\<lambda>s format. GenerateEncodingShader X format s) s fs"

subsection \<open>Notions for the properties of the generator\<close>

text \<open>
  Two states have the same control when they agree on everything a generator reads:
  the cursor, the two statics, and the size of the buffer.
\<close>

definition same_ctl :: "gen_state \<Rightarrow> gen_state \<Rightarrow> bool" where
  "same_ctl x y =
     (p x = p y \<and> IntensityConstantAdded x = IntensityConstantAdded y \<and>
      s_incrementSampleXCount x = s_incrementSampleXCount y \<and>
      length (text_buf x) = length (text_buf y))"

text \<open>
  A writer only moves the cursor forward, leaves the buffer beyond the cursor and the
  alerts alone, and from two states with the same control it reaches two states with
  the same control, storing the same byte wherever it stores one.
\<close>

definition writer :: "(gen_state \<Rightarrow> gen_state) \<Rightarrow> bool" where
  "writer E =
     ((\<forall>x. length (text_buf (E x)) = length (text_buf x) \<and> p x \<le> p (E x) \<and>
           PanicAlerts (E x) = PanicAlerts x \<and>
           (\<forall>i. p (E x) < i \<longrightarrow> text_buf (E x) ! i = text_buf x ! i)) \<and>
      (\<forall>x y. same_ctl x y \<longrightarrow>
           same_ctl (E x) (E y) \<and>
           (\<forall>i. text_buf (E x) ! i = text_buf (E y) ! i \<or>
                (text_buf (E x) ! i = text_buf x ! i \<and> text_buf (E y) ! i = text_buf y ! i))))"

text \<open>What holds of the statics between two generations.\<close>

definition gen_inv :: "gen_state \<Rightarrow> bool" where
  "gen_inv s =
     (length (text_buf s) = sizeof_text \<and> \<not> IntensityConstantAdded s \<and> s_incrementSampleXCount s = 0)"

text \<open>The codes that the \<^verbatim>\<open>switch\<close> has a case for.\<close>

fun recognized :: "TextureFormat \<Rightarrow> bool" where
  "recognized (Other_format format) = False"
| "recognized _ = True"

text \<open>
  The quantization in the words of the specification: a value is mapped to the level
  \<open>floor(value * (255 / 2 ^ (8 - N)))\<close>.
\<close>

definition quantize :: "rat \<Rightarrow> nat \<Rightarrow> int" where
  "quantize v N = \<lfloor>v * (255 / 2 ^ (8 - N))\<rfloor>"

text \<open>The number that a decimal literal \<open>ddd.ddd\<close> of the shader source denotes.\<close>

definition digits_value :: "string \<Rightarrow> nat" where
  "digits_value ds = foldl (\<lambda>a c. 10 * a + (of_char c - 48)) 0 ds"

definition decimal_value :: "string \<Rightarrow> rat" where
  "decimal_value lit =
     (let ip = takeWhile (\<lambda>c. c \<noteq> CHR ''.'') lit;
          fp = drop 1 (dropWhile (\<lambda>c. c \<noteq> CHR ''.'') lit)
      in of_nat (digits_value ip) + of_nat (digits_value fp) / 10 ^ length fp)"

text \<open>
  What a generator has emitted between two states: the characters of \<^verbatim>\<open>text\<close> from
  the cursor of the first state up to the cursor of the second.
\<close>

definition emitted :: "gen_state \<Rightarrow> gen_state \<Rightarrow> string" where
  "emitted s s' = take (p s' - p s) (drop (p s) (text_buf s'))"

text \<open>
  One choice of the parameters, on which the generators are run below: the name
  \<open>color\<close> for \<^verbatim>\<open>I_COLORS\<close>, register 0, blocks of 8 by 4 texels, 2 samples.
\<close>

definition sample_externals :: externals where
  "sample_externals =
     \<lparr>I_COLORS = ''color'', C_COLORS = 0,
      TexDecoder_GetBlockWidthInTexels = (\<lambda>f. 8),
      TexDecoder_GetBlockHeightInTexels = (\<lambda>f. 4),
      GetEncodedSampleCount = (\<lambda>f. 2)\<rparr>"

section \<open>Properties of the shader uid\<close>

text \<open>
  C3 (as amended). After \<open>ClearUID\<close> every byte of the configuration record is zero.
  The cached \<open>HASH\<close> is left as it was: \<open>ClearUID\<close> writes the bytes only. So the next
  \<open>CalculateUIDHash\<close> computes the hash of the cleared bytes only when the cached
  value was 0, and otherwise keeps the value cached before the clear.
\<close>

theorem ClearUID_keeps_HASH:
  "values (ClearUID s) = replicate (GetUidDataSize s) 0 \<and>
   HASH (ClearUID s) = HASH s \<and>
   CalculateUIDHash hash sv nv (ClearUID s) =
     (if HASH s = 0
      then (ClearUID s)\<lparr>HASH := ucast (hash (replicate (min nv (GetUidDataSize s - sv)) 0))\<rparr>
      else ClearUID s)"
  by (simp add: ClearUID_def GetUidDataSize_def CalculateUIDHash_def uid_range_def)

text \<open>
  C3 as stated fails: a uid of the four bytes 1, 2, 3, 4 is hashed (Adler-32 gives
  0x18000B), then cleared. The bytes are zero, yet the next hash request keeps
  0x18000B, and the hash of the cleared bytes would be 0x40001.
\<close>

theorem ClearUID_stale_hash:
  "values (ClearUID (CalculateUIDHash HashAdler32 0 4 (ShaderUid_ctor [1, 2, 3, 4]))) = [0, 0, 0, 0] \<and>
   HASH (CalculateUIDHash HashAdler32 0 4
          (ClearUID (CalculateUIDHash HashAdler32 0 4 (ShaderUid_ctor [1, 2, 3, 4])))) = 0x18000B \<and>
   (ucast (HashAdler32 (uid_range 0 4
          (ClearUID (CalculateUIDHash HashAdler32 0 4 (ShaderUid_ctor [1, 2, 3, 4]))))) :: size_t) = 0x40001"
  by (simp add: ClearUID_def CalculateUIDHash_def ShaderUid_ctor_def uid_range_def HashAdler32_def)

text \<open>
  C4. The hash is computed (\<open>s1\<close>), then the bytes of the record are overwritten by
  any \<open>bytes'\<close> that agree with the old ones on the range the hash reads, and the hash
  is requested again: \<open>HASH\<close> is the same value as after the first request. When the
  first request stored a value other than 0, the second one changes nothing at all,
  whatever the bytes have become; when it stored 0 the guard \<^verbatim>\<open>HASH == 0\<close> lets the
  second one hash the range again, which gives 0 again.
\<close>

theorem CalculateUIDHash_twice:
  assumes "s1 = CalculateUIDHash hash sv nv s"
    and "take nv (drop sv bytes') = uid_range sv nv s"
  shows "HASH (CalculateUIDHash hash sv nv (s1\<lparr>values := bytes'\<rparr>)) = HASH s1 \<and>
         (HASH s1 \<noteq> 0 \<longrightarrow>
            (\<forall>b. CalculateUIDHash hash sv nv (s1\<lparr>values := b\<rparr>) = s1\<lparr>values := b\<rparr>))"
  using assms by (auto simp add: CalculateUIDHash_def uid_range_def)

theorem CalculateUIDHash_twice_witness:
  "HASH (CalculateUIDHash HashAdler32 1 4
          ((CalculateUIDHash HashAdler32 1 4 (ShaderUid_ctor [9, 1, 2, 3, 4, 7]))
             \<lparr>values := [0, 1, 2, 3, 4, 5]\<rparr>)) = 0x18000B \<and>
   HASH (CalculateUIDHash HashAdler32 1 4 (ShaderUid_ctor [9, 1, 2, 3, 4, 7])) = 0x18000B \<and>
   take 4 (drop 1 [0, 1, 2, 3, 4, 5 :: u8]) = uid_range 1 4 (ShaderUid_ctor [9, 1, 2, 3, 4, 7]) \<and>
   HASH (CalculateUIDHash HashAdler32 1 4 (ShaderUid_ctor [9, 1, 2, 3, 4, 7])) \<noteq> 0 \<and>
   CalculateUIDHash HashAdler32 1 4
     ((CalculateUIDHash HashAdler32 1 4 (ShaderUid_ctor [9, 1, 2, 3, 4, 7]))\<lparr>values := [5, 5, 5, 5, 5, 5]\<rparr>) =
   (CalculateUIDHash HashAdler32 1 4 (ShaderUid_ctor [9, 1, 2, 3, 4, 7]))\<lparr>values := [5, 5, 5, 5, 5, 5]\<rparr>"
proof -
  have r: "take 4 (drop 1 [0, 1, 2, 3, 4, 5 :: u8]) = uid_range 1 4 (ShaderUid_ctor [9, 1, 2, 3, 4, 7])"
    by (simp add: uid_range_def ShaderUid_ctor_def)
  have h: "HASH (CalculateUIDHash HashAdler32 1 4 (ShaderUid_ctor [9, 1, 2, 3, 4, 7])) = 0x18000B"
    by (simp add: CalculateUIDHash_def ShaderUid_ctor_def uid_range_def HashAdler32_def)
  from CalculateUIDHash_twice [OF refl r, of HashAdler32] h r show ?thesis
    by simp
qed

section \<open>Properties of the uid checker\<close>

subsection \<open>The comparisons and the map\<close>

lemma memcmp_flip: "memcmp ys xs = - memcmp xs ys"
  by (induction xs ys rule: memcmp.induct) auto

lemma memcmp_same: "memcmp xs xs = 0"
  by (induction xs) auto

lemma operator_eq_refl: "operator_eq sv nv u u"
  by (simp add: operator_eq_def memcmp_same)

lemma not_less_self: "\<not> operator_less sv nv u u"
  by (simp add: operator_less_def memcmp_same)

lemma operator_eq_iff_unordered:
  "operator_eq sv nv a b \<longleftrightarrow> \<not> operator_less sv nv a b \<and> \<not> operator_less sv nv b a"
  unfolding operator_eq_def operator_less_def
  using memcmp_flip [of "uid_range sv nv b" "uid_range sv nv a"] by auto

lemma map_find_assign_same:
  "\<not> lt k k \<Longrightarrow> map_find lt (map_assign lt m k v) k = Some v"
  by (induction m) auto

lemma map_find_None_iff:
  "map_find lt m k = None \<longleftrightarrow> \<not> list_ex (\<lambda>k'. \<not> lt k' k \<and> \<not> lt k k') (map fst m)"
  by (induction m) (auto split: if_splits)

lemma map_assign_absent:
  "map_find lt m k = None \<Longrightarrow> map_assign lt m k v = m @ [(k, v)]"
  by (induction m) (auto split: if_splits)

lemma map_assign_present:
  "map_find lt m k \<noteq> None \<Longrightarrow> map fst (map_assign lt m k v) = map fst m"
  by (induction m) (auto split: if_splits)

subsection \<open>The invariant\<close>

lemma uids_once_snoc:
  "uids_once sv nv (us @ [u]) \<longleftrightarrow> uids_once sv nv us \<and> \<not> list_ex (\<lambda>x. operator_eq sv nv x u) us"
  by (induction us) (auto simp: list_ex_iff)

lemma indexed_iff_key:
  assumes "set (map fst m) = set us"
  shows "list_ex (\<lambda>u. operator_eq sv nv u k) us \<longleftrightarrow> map_find (operator_less sv nv) m k \<noteq> None"
proof -
  have "list_ex (\<lambda>u. operator_eq sv nv u k) us \<longleftrightarrow> (\<exists>u \<in> set (map fst m). operator_eq sv nv u k)"
    using assms by (simp add: list_ex_iff)
  also have "\<dots> \<longleftrightarrow> list_ex (\<lambda>k'. \<not> operator_less sv nv k' k \<and> \<not> operator_less sv nv k k') (map fst m)"
    by (simp add: list_ex_iff operator_eq_iff_unordered)
  finally show ?thesis by (simp add: map_find_None_iff)
qed

lemma checker_inv_Invalidate: "checker_inv sv nv (Invalidate c)"
  by (simp add: checker_inv_def Invalidate_def)

lemma checker_inv_Add:
  assumes "checker_inv sv nv c"
  shows "checker_inv sv nv (AddToIndexAndCheck sv nv user_path u32_view new_code new_uid shader_type dump_prefix c)"
proof (cases "list_ex (\<lambda>u. operator_eq sv nv u new_uid) (m_uids c)")
  case True
  with assms have "map_find (operator_less sv nv) (m_shaders c) new_uid \<noteq> None"
    using indexed_iff_key [of "m_shaders c" "m_uids c" sv nv new_uid] by (simp add: checker_inv_def)
  then obtain old where "map_find (operator_less sv nv) (m_shaders c) new_uid = Some old"
    by blast
  with True assms show ?thesis
    by (simp add: AddToIndexAndCheck_def map_index_def Let_def checker_inv_def)
next
  case False
  with assms have none: "map_find (operator_less sv nv) (m_shaders c) new_uid = None"
    using indexed_iff_key [of "m_shaders c" "m_uids c" sv nv new_uid] by (simp add: checker_inv_def)
  have "\<not> list_ex (\<lambda>x. operator_eq sv nv x new_uid) (map fst (m_shaders c))"
    using False assms by (simp add: checker_inv_def list_ex_iff)
  with False assms none show ?thesis
    by (simp add: AddToIndexAndCheck_def checker_inv_def map_assign_absent uids_once_snoc)
qed

lemma checker_inv_run_op: "checker_inv sv nv c \<Longrightarrow> checker_inv sv nv (run_op sv nv up v c op)"
  by (cases op) (simp_all add: checker_inv_Add checker_inv_Invalidate)

lemma checker_inv_run_ops: "checker_inv sv nv c \<Longrightarrow> checker_inv sv nv (run_ops sv nv up v ops c)"
  unfolding run_ops_def by (induction ops arbitrary: c) (simp_all add: checker_inv_run_op)

lemma checker_inv_new: "checker_inv sv nv UidChecker_new"
  by (simp add: checker_inv_def UidChecker_new_def)

subsection \<open>The hex dump, group by group\<close>

lemma length_hex_digits: "0 < k \<Longrightarrow> n < 16 ^ k \<Longrightarrow> length (hex_digits n) \<le> k"
proof (induction k arbitrary: n)
  case 0
  then show ?case by simp
next
  case (Suc k)
  show ?case
  proof (cases "n < 16")
    case True
    then show ?thesis by (simp add: hex_digits.simps [of n])
  next
    case False
    with Suc.prems have k: "0 < k" by (cases k) auto
    from Suc.prems have "n div 16 < 16 ^ k"
      by (simp add: less_mult_imp_div_less mult.commute)
    with Suc.IH k have "length (hex_digits (n div 16)) \<le> k" by blast
    with False show ?thesis by (simp add: hex_digits.simps [of n])
  qed
qed

lemma is_hex_digit_digit_char: "d < 16 \<Longrightarrow> is_hex_digit (digit_char d)"
  unfolding is_hex_digit_def digit_char_def by (rule nth_mem) simp

lemma hex_digits_chars: "c \<in> set (hex_digits n) \<Longrightarrow> is_hex_digit c"
proof (induction n rule: hex_digits.induct)
  case (1 n)
  then show ?case
    by (cases "n < 16") (auto simp: hex_digits.simps [of n] is_hex_digit_digit_char)
qed

lemma word8_shape:
  fixes w :: u32
  shows "length (setw 8 (CHR ''0'') (hex_digits (unat w))) = 8"
    and "c \<in> set (setw 8 (CHR ''0'') (hex_digits (unat w))) \<Longrightarrow> is_hex_digit c"
proof -
  have "unat w < 2 ^ 32" using unsigned_less [of w] by simp
  then have "unat w < 16 ^ 8" by simp
  then have "length (hex_digits (unat w)) \<le> 8" by (intro length_hex_digits) simp_all
  then show "length (setw 8 (CHR ''0'') (hex_digits (unat w))) = 8" by (simp add: setw_def)
  have "is_hex_digit (CHR ''0'')" by (simp add: is_hex_digit_def)
  then show "c \<in> set (setw 8 (CHR ''0'') (hex_digits (unat w))) \<Longrightarrow> is_hex_digit c"
    by (auto simp: setw_def dest: hex_digits_chars)
qed

lemma group_as_loop:
  assumes "4 * g < sz"
  shows "dump_group u32_at sz g = concat (map (dump_value u32_at sz) [4 * g..<min (4 * g + 4) sz])"
proof -
  consider "sz = 4 * g + 1" | "sz = 4 * g + 2" | "sz = 4 * g + 3" | "4 * g + 4 \<le> sz"
    using assms by linarith
  then show ?thesis
  proof cases
    case 1
    then show ?thesis
      by (simp add: dump_group_def group_words_def dump_value_def upt_rec [of "4 * g"])
  next
    case 2
    then have "[4 * g..<min (4 * g + 4) sz] = [4 * g, 4 * g + 1]"
      by (simp add: upt_rec [of "4 * g"] upt_rec [of "Suc (4 * g)"])
    then show ?thesis using 2
      by (simp add: dump_group_def group_words_def dump_value_def mod_Suc)
  next
    case 3
    then have "[4 * g..<min (4 * g + 4) sz] = [4 * g, 4 * g + 1, 4 * g + 2]"
      by (simp add: upt_rec [of "4 * g"] upt_rec [of "Suc (4 * g)"] upt_rec [of "Suc (Suc (4 * g))"])
    then show ?thesis using 3
      by (simp add: dump_group_def group_words_def dump_value_def mod_Suc)
  next
    case 4
    then have "[4 * g..<min (4 * g + 4) sz] = [4 * g, 4 * g + 1, 4 * g + 2, 4 * g + 3]"
      by (simp add: upt_rec [of "4 * g"] upt_rec [of "Suc (4 * g)"] upt_rec [of "Suc (Suc (4 * g))"]
          upt_rec [of "Suc (Suc (Suc (4 * g)))"])
    then show ?thesis using 4
      by (simp add: dump_group_def group_words_def dump_value_def mod_Suc)
  qed
qed

lemma full_groups: "4 * q \<le> sz \<Longrightarrow> concat (map (\<lambda>g. [4 * g..<min (4 * g + 4) sz]) [0..<q]) = [0..<4 * q]"
proof (induction q)
  case 0
  then show ?case by simp
next
  case (Suc q)
  then have "min (4 * q + 4) sz = 4 * q + 4" by simp
  moreover have "[0..<4 * q] @ [4 * q..<4 * q + 4] = [0..<4 * Suc q]"
    using upt_add_eq_append [of 0 "4 * q" 4] by (simp add: add.commute)
  ultimately show ?case using Suc by simp
qed

lemma all_groups: "concat (map (\<lambda>g. [4 * g..<min (4 * g + 4) sz]) [0..<(sz + 3) div 4]) = [0..<sz]"
proof (cases "sz mod 4 = 0")
  case True
  then have "(sz + 3) div 4 = sz div 4" "4 * (sz div 4) = sz" by presburger+
  with full_groups [of "sz div 4" sz] show ?thesis by simp
next
  case False
  then have q: "(sz + 3) div 4 = Suc (sz div 4)" "4 * (sz div 4) \<le> sz" "sz < 4 * (sz div 4) + 4"
    by presburger+
  have "[0..<4 * (sz div 4)] @ [4 * (sz div 4)..<sz] = [0..<sz]"
    using q(2) by (metis le_add_diff_inverse upt_add_eq_append zero_le)
  with full_groups [OF q(2)] q show ?thesis by simp
qed

lemma concat_map_concat:
  "concat (map (\<lambda>g. concat (map f (h g))) xs) = concat (map f (concat (map h xs)))"
  by (induction xs) simp_all

lemma dump_uid_groups:
  "dump_uid u32_at sz = concat (map (dump_group u32_at sz) [0..<(sz + 3) div 4])"
proof -
  have "map (dump_group u32_at sz) [0..<(sz + 3) div 4] =
        map (\<lambda>g. concat (map (dump_value u32_at sz) [4 * g..<min (4 * g + 4) sz])) [0..<(sz + 3) div 4]"
  proof (rule map_cong [OF refl])
    fix g assume "g \<in> set [0..<(sz + 3) div 4]"
    then have "4 * g < sz" by auto
    then show "dump_group u32_at sz g = concat (map (dump_value u32_at sz) [4 * g..<min (4 * g + 4) sz])"
      by (rule group_as_loop)
  qed
  also have "concat \<dots> = concat (map (dump_value u32_at sz)
                (concat (map (\<lambda>g. [4 * g..<min (4 * g + 4) sz]) [0..<(sz + 3) div 4])))"
    by (rule concat_map_concat)
  finally show ?thesis by (simp add: all_groups dump_uid_def)
qed

subsection \<open>One call after another\<close>

lemma Add_first:
  assumes "\<not> list_ex (\<lambda>u. operator_eq sv nv u U) (m_uids c)"
  shows "AddToIndexAndCheck sv nv up v T U st px c =
         c\<lparr>m_uids := m_uids c @ [U], m_shaders := map_assign (operator_less sv nv) (m_shaders c) U T\<rparr>"
  using assms by (simp add: AddToIndexAndCheck_def)

lemma Add_again_same:
  assumes "list_ex (\<lambda>u. operator_eq sv nv u U) (m_uids c)"
    and "map_find (operator_less sv nv) (m_shaders c) U = Some T"
  shows "AddToIndexAndCheck sv nv up v T U st px c = c"
  using assms by (simp add: AddToIndexAndCheck_def map_index_def)

lemma Add_again_other:
  assumes "list_ex (\<lambda>u. operator_eq sv nv u U) (m_uids c)"
    and "map_find (operator_less sv nv) (m_shaders c) U = Some T1" and "T1 \<noteq> T2"
  shows "AddToIndexAndCheck sv nv up v T2 U st px c =
         c\<lparr>num_failures := num_failures c + 1,
           dump_files := dump_files c @
             [(up @ px @ ''suid_mismatch_'' @ printf_04i (num_failures c + 1) @ ''.txt'',
               ''Old shader code:\<newline>'' @ T1 @ ''\<newline>\<newline>New shader code:\<newline>'' @ T2 @
               ''\<newline>\<newline>Shader uid:\<newline>'' @ dump_uid (v U) (GetUidDataSize U))],
           error_log := error_log c @
             [st @ '' shader uid mismatch! See '' @
              (up @ px @ ''suid_mismatch_'' @ printf_04i (num_failures c + 1) @ ''.txt'') @ '' for details'']\<rparr>"
  using assms by (simp add: AddToIndexAndCheck_def map_index_def Let_def)

lemma after_first:
  assumes "\<not> list_ex (\<lambda>u. operator_eq sv nv u U) (m_uids c)"
  shows "list_ex (\<lambda>u. operator_eq sv nv u U) (m_uids (AddToIndexAndCheck sv nv up v T U st px c))"
    and "map_find (operator_less sv nv) (m_shaders (AddToIndexAndCheck sv nv up v T U st px c)) U = Some T"
  using assms by (simp_all add: Add_first operator_eq_refl map_find_assign_same not_less_self)

lemma no_key_of_unindexed:
  assumes "checker_inv sv nv c" and "\<not> list_ex (\<lambda>u. operator_eq sv nv u U) (m_uids c)"
  shows "filter (\<lambda>(k, t). \<not> operator_less sv nv k U \<and> \<not> operator_less sv nv U k) (m_shaders c) = []"
proof -
  have "\<not> (\<not> operator_less sv nv k U \<and> \<not> operator_less sv nv U k)" if "(k, t) \<in> set (m_shaders c)" for k t
  proof -
    from that have "k \<in> set (map fst (m_shaders c))" by force
    with assms(1) have "k \<in> set (m_uids c)" by (simp add: checker_inv_def)
    with assms(2) have "\<not> operator_eq sv nv k U" by (auto simp: list_ex_iff)
    then show ?thesis by (simp add: operator_eq_iff_unordered)
  qed
  then show ?thesis by (auto simp: filter_empty_conv)
qed

subsection \<open>The stored text over a run\<close>

lemma memcmp_eq_iff: "length xs = length ys \<Longrightarrow> memcmp xs ys = 0 \<longleftrightarrow> xs = ys"
  by (induction xs ys rule: list_induct2) auto

lemma operator_eq_same_size:
  assumes "GetUidDataSize V = GetUidDataSize U"
  shows "operator_eq sv nv V U \<longleftrightarrow> uid_range sv nv V = uid_range sv nv U"
proof -
  from assms have "length (uid_range sv nv V) = length (uid_range sv nv U)"
    by (simp add: uid_range_def GetUidDataSize_def)
  then show ?thesis unfolding operator_eq_def by (rule memcmp_eq_iff)
qed

lemma map_find_same_range:
  "uid_range sv nv V = uid_range sv nv U \<Longrightarrow>
   map_find (operator_less sv nv) m V = map_find (operator_less sv nv) m U"
  by (induction m) (auto simp: operator_less_def)

lemma map_find_snoc:
  "map_find lt (m @ [(k, v)]) k' =
     (case map_find lt m k' of Some t \<Rightarrow> Some t
      | None \<Rightarrow> if \<not> lt k k' \<and> \<not> lt k' k then Some v else None)"
  by (induction m) auto

lemma calls_snoc_Add [simp]:
  "calls_since_Invalidate (ops @ [Add T V st px]) = calls_since_Invalidate ops @ [(V, T)]"
  by (simp add: calls_since_Invalidate_def)

lemma calls_snoc_Inv [simp]: "calls_since_Invalidate (ops @ [Inv]) = []"
  by (simp add: calls_since_Invalidate_def)

lemma calls_Nil [simp]: "calls_since_Invalidate [] = []"
  by (simp add: calls_since_Invalidate_def)

lemma find_snoc:
  "find P (xs @ [x]) = (case find P xs of Some y \<Rightarrow> Some y | None \<Rightarrow> if P x then Some x else None)"
  by (induction xs) auto

lemma first_text_snoc_Add:
  "first_text sv nv U (ops @ [Add T V st px]) =
     (case first_text sv nv U ops of Some t \<Rightarrow> Some t
      | None \<Rightarrow> if operator_eq sv nv V U then Some T else None)"
  by (auto simp: first_text_def find_snoc split: option.splits)

lemma run_ops_snoc:
  "run_ops sv nv up v (ops @ [op]) c = run_op sv nv up v (run_ops sv nv up v ops c) op"
  by (simp add: run_ops_def)

lemma uids_of_snoc_Add [simp]: "uids_of (ops @ [Add T V st px]) = uids_of ops @ [V]"
  by (simp add: uids_of_def)

lemma uids_of_snoc_Inv [simp]: "uids_of (ops @ [Inv]) = uids_of ops"
  by (simp add: uids_of_def)

text \<open>What one call does to the map, seen from any key.\<close>

lemma shaders_after_Add:
  assumes "checker_inv sv nv c"
  shows "m_shaders (AddToIndexAndCheck sv nv up v T V st px c) =
           (if list_ex (\<lambda>u. operator_eq sv nv u V) (m_uids c) then m_shaders c
            else m_shaders c @ [(V, T)])"
proof (cases "list_ex (\<lambda>u. operator_eq sv nv u V) (m_uids c)")
  case True
  with assms obtain old where "map_find (operator_less sv nv) (m_shaders c) V = Some old"
    using indexed_iff_key [of "m_shaders c" "m_uids c" sv nv V] by (auto simp: checker_inv_def)
  with True show ?thesis
    by (simp add: AddToIndexAndCheck_def map_index_def Let_def)
next
  case False
  with assms have "map_find (operator_less sv nv) (m_shaders c) V = None"
    using indexed_iff_key [of "m_shaders c" "m_uids c" sv nv V] by (simp add: checker_inv_def)
  with False show ?thesis
    by (simp add: Add_first map_assign_absent)
qed

lemma stored_is_first:
  assumes "\<forall>V \<in> set (uids_of ops). GetUidDataSize V = GetUidDataSize U"
  shows "map_find (operator_less sv nv) (m_shaders (run_ops sv nv up v ops UidChecker_new)) U =
         first_text sv nv U ops"
  using assms
proof (induction ops rule: rev_induct)
  case Nil
  show ?case by (simp add: run_ops_def UidChecker_new_def first_text_def)
next
  case (snoc op ops)
  let ?c = "run_ops sv nv up v ops UidChecker_new"
  have inv: "checker_inv sv nv ?c" by (rule checker_inv_run_ops [OF checker_inv_new])
  show ?case
  proof (cases op)
    case Inv
    then show ?thesis
      by (simp add: run_ops_snoc Invalidate_def first_text_def)
  next
    case (Add T V st px)
    from snoc.prems Add have sz: "GetUidDataSize V = GetUidDataSize U"
      and rest: "\<forall>V \<in> set (uids_of ops). GetUidDataSize V = GetUidDataSize U" by simp_all
    from snoc.IH [OF rest]
    have IH: "map_find (operator_less sv nv) (m_shaders ?c) U = first_text sv nv U ops" .
    show ?thesis
    proof (cases "list_ex (\<lambda>u. operator_eq sv nv u V) (m_uids ?c)")
      case True
      then have V: "map_find (operator_less sv nv) (m_shaders ?c) V \<noteq> None"
        using inv indexed_iff_key [of "m_shaders ?c" "m_uids ?c" sv nv V] by (simp add: checker_inv_def)
      have "operator_eq sv nv V U \<longrightarrow> first_text sv nv U ops \<noteq> None"
      proof
        assume "operator_eq sv nv V U"
        then have "uid_range sv nv V = uid_range sv nv U"
          by (simp add: operator_eq_same_size [OF sz])
        from map_find_same_range [OF this] V IH show "first_text sv nv U ops \<noteq> None" by simp
      qed
      with True IH show ?thesis
        by (auto simp: Add run_ops_snoc shaders_after_Add [OF inv] first_text_snoc_Add
            split: option.splits)
    next
      case False
      with IH show ?thesis
        by (auto simp: Add run_ops_snoc shaders_after_Add [OF inv] first_text_snoc_Add
            map_find_snoc operator_eq_iff_unordered split: option.splits)
    qed
  qed
qed

subsection \<open>The claims about the checker\<close>

text \<open>
  C1 (as amended). \<open>U\<close> is not yet indexed and \<open>T1 \<noteq> T2\<close>. The call with \<open>(T1, U)\<close>
  and then the call with \<open>(T2, U)\<close> write one dump file between them. Its text is the
  old code \<open>T1\<close>, then under \<^verbatim>\<open>New shader code:\<close> the text \<open>T2\<close> as it is, then under
  \<^verbatim>\<open>Shader uid:\<close> the hex dump, which is \<open>ceil(GetUidDataSize() / 4)\<close> groups. Every
  word of a group is 8 hexadecimal digits, zero-padded. A group holds 4 words, except
  that the last one holds \<open>GetUidDataSize() mod 4\<close> words when 4 does not divide
  \<open>GetUidDataSize()\<close>: group \<open>g\<close> holds \<open>min 4 (GetUidDataSize() - 4 * g)\<close> words.
\<close>

theorem collision_dump:
  assumes "\<not> list_ex (\<lambda>u. operator_eq sv nv u U) (m_uids c)" and "T1 \<noteq> T2"
  shows "dump_files (AddToIndexAndCheck sv nv up v T2 U st2 px2
                       (AddToIndexAndCheck sv nv up v T1 U st1 px1 c)) =
         dump_files c @
           [(up @ px2 @ ''suid_mismatch_'' @ printf_04i (num_failures c + 1) @ ''.txt'',
             ''Old shader code:\<newline>'' @ T1 @ ''\<newline>\<newline>New shader code:\<newline>'' @ T2 @
             ''\<newline>\<newline>Shader uid:\<newline>'' @
             concat (map (dump_group (v U) (GetUidDataSize U)) [0..<(GetUidDataSize U + 3) div 4]))] \<and>
         (\<forall>g < (GetUidDataSize U + 3) div 4.
            length (group_words (v U) (GetUidDataSize U) g) = min 4 (GetUidDataSize U - 4 * g) \<and>
            (4 dvd GetUidDataSize U \<longrightarrow> length (group_words (v U) (GetUidDataSize U) g) = 4) \<and>
            (\<forall>w \<in> set (group_words (v U) (GetUidDataSize U) g). length w = 8 \<and> list_all is_hex_digit w))"
proof -
  let ?c1 = "AddToIndexAndCheck sv nv up v T1 U st1 px1 c"
  have 1: "dump_files ?c1 = dump_files c" "num_failures ?c1 = num_failures c"
    using assms(1) by (simp_all add: Add_first)
  have a: "dump_files (AddToIndexAndCheck sv nv up v T2 U st2 px2 ?c1) =
        dump_files c @
           [(up @ px2 @ ''suid_mismatch_'' @ printf_04i (num_failures c + 1) @ ''.txt'',
             ''Old shader code:\<newline>'' @ T1 @ ''\<newline>\<newline>New shader code:\<newline>'' @ T2 @
             ''\<newline>\<newline>Shader uid:\<newline>'' @
             concat (map (dump_group (v U) (GetUidDataSize U)) [0..<(GetUidDataSize U + 3) div 4]))]"
    using Add_again_other [OF after_first [OF assms(1)] assms(2)] 1
    by (simp add: dump_uid_groups)
  have b: "\<forall>g < (GetUidDataSize U + 3) div 4.
            length (group_words (v U) (GetUidDataSize U) g) = min 4 (GetUidDataSize U - 4 * g) \<and>
            (4 dvd GetUidDataSize U \<longrightarrow> length (group_words (v U) (GetUidDataSize U) g) = 4) \<and>
            (\<forall>w \<in> set (group_words (v U) (GetUidDataSize U) g). length w = 8 \<and> list_all is_hex_digit w)"
  proof (intro allI impI conjI)
    fix g assume g: "g < (GetUidDataSize U + 3) div 4"
    then have lt: "4 * g < GetUidDataSize U" by auto
    show len: "length (group_words (v U) (GetUidDataSize U) g) = min 4 (GetUidDataSize U - 4 * g)"
      by (auto simp: group_words_def)
    show "length (group_words (v U) (GetUidDataSize U) g) = 4" if "4 dvd GetUidDataSize U"
    proof -
      from that lt have "4 * g + 4 \<le> GetUidDataSize U" by presburger
      with len show ?thesis by simp
    qed
    show "\<forall>w \<in> set (group_words (v U) (GetUidDataSize U) g). length w = 8 \<and> list_all is_hex_digit w"
      by (auto simp: group_words_def word8_shape list_all_iff)
  qed
  show ?thesis by (rule conjI [OF a b])
qed

theorem collision_dump_witness:
  "\<not> list_ex (\<lambda>u. operator_eq 0 4 u (ShaderUid_ctor [1, 2, 3, 4])) (m_uids UidChecker_new) \<and>
   ''a'' \<noteq> ''b'' \<and>
   dump_files (AddToIndexAndCheck 0 4 ''/dump/'' (\<lambda>u. of_nat) ''b'' (ShaderUid_ctor [1, 2, 3, 4]) ''Pixel'' ''ps''
                (AddToIndexAndCheck 0 4 ''/dump/'' (\<lambda>u. of_nat) ''a'' (ShaderUid_ctor [1, 2, 3, 4]) ''Pixel'' ''ps''
                   UidChecker_new)) =
     [(''/dump/pssuid_mismatch_0001.txt'',
       ''Old shader code:\<newline>a\<newline>\<newline>New shader code:\<newline>b\<newline>\<newline>Shader uid:\<newline>Values  0 - 4: 00000000 00000001 00000002 00000003\<newline>'')] \<and>
   length (group_words (of_nat :: nat \<Rightarrow> u32) 4 0) = 4 \<and>
   list_all (\<lambda>w. length w = 8 \<and> list_all is_hex_digit w) (group_words (of_nat :: nat \<Rightarrow> u32) 4 0)"
proof -
  have h: "\<not> list_ex (\<lambda>u. operator_eq 0 4 u (ShaderUid_ctor [1, 2, 3, 4])) (m_uids UidChecker_new)"
    by (simp add: UidChecker_new_def)
  have t: "''a'' \<noteq> ''b''" by simp
  have g: "dump_group (of_nat :: nat \<Rightarrow> u32) 4 0 = ''Values  0 - 4: 00000000 00000001 00000002 00000003\<newline>''"
    by code_simp
  have n: "printf_04i (num_failures UidChecker_new + 1) = ''0001''"
    by code_simp
  have d: "dump_files UidChecker_new = []"
    by (simp add: UidChecker_new_def)
  have s: "GetUidDataSize (ShaderUid_ctor [1, 2, 3, 4]) = 4"
    by (simp add: GetUidDataSize_def ShaderUid_ctor_def)
  from collision_dump [OF h t, of "''/dump/''" "\<lambda>u. of_nat" "''Pixel''" "''ps''" "''Pixel''" "''ps''"]
  have "dump_files (AddToIndexAndCheck 0 4 ''/dump/'' (\<lambda>u. of_nat) ''b'' (ShaderUid_ctor [1, 2, 3, 4]) ''Pixel'' ''ps''
                (AddToIndexAndCheck 0 4 ''/dump/'' (\<lambda>u. of_nat) ''a'' (ShaderUid_ctor [1, 2, 3, 4]) ''Pixel'' ''ps''
                   UidChecker_new)) =
        dump_files UidChecker_new @
           [(''/dump/'' @ ''ps'' @ ''suid_mismatch_'' @ printf_04i (num_failures UidChecker_new + 1) @ ''.txt'',
             ''Old shader code:\<newline>'' @ ''a'' @ ''\<newline>\<newline>New shader code:\<newline>'' @ ''b'' @
             ''\<newline>\<newline>Shader uid:\<newline>'' @
             concat (map (dump_group (of_nat :: nat \<Rightarrow> u32) (GetUidDataSize (ShaderUid_ctor [1, 2, 3, 4])))
                [0..<(GetUidDataSize (ShaderUid_ctor [1, 2, 3, 4]) + 3) div 4]))]"
    by (rule conjunct1)
  moreover
  from collision_dump [OF h t, of "''/dump/''" "\<lambda>u. of_nat" "''Pixel''" "''ps''" "''Pixel''" "''ps''"]
  have "\<forall>g<(4 + 3) div 4.
          length (group_words (of_nat :: nat \<Rightarrow> u32) 4 g) = min 4 (4 - 4 * g) \<and>
          (4 dvd (4::nat) \<longrightarrow> length (group_words (of_nat :: nat \<Rightarrow> u32) 4 g) = 4) \<and>
          (\<forall>w\<in>set (group_words (of_nat :: nat \<Rightarrow> u32) 4 g). length w = 8 \<and> list_all is_hex_digit w)"
    unfolding s by (rule conjunct2)
  then have "length (group_words (of_nat :: nat \<Rightarrow> u32) 4 0) = 4 \<and>
      list_all (\<lambda>w. length w = 8 \<and> list_all is_hex_digit w) (group_words (of_nat :: nat \<Rightarrow> u32) 4 0)"
    by (simp add: list_all_iff)
  ultimately show ?thesis using h t
    by (simp add: g n d s)
qed

text \<open>
  C1 as stated fails for a record whose size is not a multiple of 4: with 5 bytes the
  dump has \<open>ceil(5 / 4) = 2\<close> groups, and the second holds one word, not four.
\<close>

theorem collision_dump_short_group:
  "dump_files (AddToIndexAndCheck 0 5 ''/dump/'' (\<lambda>u. of_nat) ''b'' (ShaderUid_ctor [1, 2, 3, 4, 5]) ''Pixel'' ''ps''
                (AddToIndexAndCheck 0 5 ''/dump/'' (\<lambda>u. of_nat) ''a'' (ShaderUid_ctor [1, 2, 3, 4, 5]) ''Pixel'' ''ps''
                   UidChecker_new)) =
     [(''/dump/pssuid_mismatch_0001.txt'',
       ''Old shader code:\<newline>a\<newline>\<newline>New shader code:\<newline>b\<newline>\<newline>Shader uid:\<newline>Values  0 - 3: 00000000 00000001 00000002 00000003\<newline>Values  4 - 5: 00000004 '')] \<and>
   GetUidDataSize (ShaderUid_ctor [1, 2, 3, 4, 5]) = 5 \<and>
   group_words (of_nat :: nat \<Rightarrow> u32) 5 1 = [''00000004'']"
  by code_simp

text \<open>
  C2. \<open>U\<close> is not yet indexed in a checker that satisfies \<open>checker_inv\<close> (every
  checker does, see C10). After two calls with the same \<open>U\<close> and the same text \<open>T\<close> no
  dump file has been written, \<open>U\<close> is \<^verbatim>\<open>==\<close> to exactly one uid of \<open>m_uids\<close>, exactly
  one entry of \<open>m_shaders\<close> has the key \<open>U\<close>, and its text is \<open>T\<close>.
\<close>

theorem same_text_twice:
  assumes "checker_inv sv nv c" and "\<not> list_ex (\<lambda>u. operator_eq sv nv u U) (m_uids c)"
    and "c2 = AddToIndexAndCheck sv nv up v T U st2 px2 (AddToIndexAndCheck sv nv up v T U st1 px1 c)"
  shows "dump_files c2 = dump_files c \<and>
         filter (\<lambda>u. operator_eq sv nv u U) (m_uids c2) = [U] \<and>
         filter (\<lambda>(k, t). \<not> operator_less sv nv k U \<and> \<not> operator_less sv nv U k) (m_shaders c2) = [(U, T)] \<and>
         map_find (operator_less sv nv) (m_shaders c2) U = Some T"
proof -
  let ?c1 = "AddToIndexAndCheck sv nv up v T U st1 px1 c"
  have none: "map_find (operator_less sv nv) (m_shaders c) U = None"
    using assms(1,2) indexed_iff_key [of "m_shaders c" "m_uids c" sv nv U] by (simp add: checker_inv_def)
  have c1: "?c1 = c\<lparr>m_uids := m_uids c @ [U], m_shaders := m_shaders c @ [(U, T)]\<rparr>"
    using assms(2) none by (simp add: Add_first map_assign_absent)
  have "c2 = ?c1"
    unfolding assms(3) by (rule Add_again_same) (rule after_first [OF assms(2)])+
  moreover have "filter (\<lambda>u. operator_eq sv nv u U) (m_uids c) = []"
    using assms(2) by (auto simp: filter_empty_conv list_ex_iff)
  moreover note no_key_of_unindexed [OF assms(1,2)] after_first(2) [OF assms(2), of up v T st1 px1]
  ultimately show ?thesis
    by (simp add: c1 operator_eq_refl not_less_self)
qed

theorem same_text_twice_witness:
  "checker_inv 0 4 UidChecker_new \<and>
   \<not> list_ex (\<lambda>u. operator_eq 0 4 u (ShaderUid_ctor [1, 2, 3, 4])) (m_uids UidChecker_new) \<and>
   dump_files (AddToIndexAndCheck 0 4 ''/dump/'' (\<lambda>u. of_nat) ''a'' (ShaderUid_ctor [1, 2, 3, 4]) ''Pixel'' ''ps''
                (AddToIndexAndCheck 0 4 ''/dump/'' (\<lambda>u. of_nat) ''a'' (ShaderUid_ctor [1, 2, 3, 4]) ''Pixel'' ''ps''
                   UidChecker_new)) = [] \<and>
   m_uids (AddToIndexAndCheck 0 4 ''/dump/'' (\<lambda>u. of_nat) ''a'' (ShaderUid_ctor [1, 2, 3, 4]) ''Pixel'' ''ps''
                (AddToIndexAndCheck 0 4 ''/dump/'' (\<lambda>u. of_nat) ''a'' (ShaderUid_ctor [1, 2, 3, 4]) ''Pixel'' ''ps''
                   UidChecker_new)) = [ShaderUid_ctor [1, 2, 3, 4]] \<and>
   map_find (operator_less 0 4)
     (m_shaders (AddToIndexAndCheck 0 4 ''/dump/'' (\<lambda>u. of_nat) ''a'' (ShaderUid_ctor [1, 2, 3, 4]) ''Pixel'' ''ps''
                (AddToIndexAndCheck 0 4 ''/dump/'' (\<lambda>u. of_nat) ''a'' (ShaderUid_ctor [1, 2, 3, 4]) ''Pixel'' ''ps''
                   UidChecker_new)))
     (ShaderUid_ctor [1, 2, 3, 4]) = Some ''a''"
proof -
  have i: "checker_inv 0 4 UidChecker_new"
    by (simp add: checker_inv_def UidChecker_new_def)
  have h: "\<not> list_ex (\<lambda>u. operator_eq 0 4 u (ShaderUid_ctor [1, 2, 3, 4])) (m_uids UidChecker_new)"
    by (simp add: UidChecker_new_def)
  have u: "m_uids (AddToIndexAndCheck 0 4 ''/dump/'' (\<lambda>u. of_nat) ''a'' (ShaderUid_ctor [1, 2, 3, 4]) ''Pixel'' ''ps''
                (AddToIndexAndCheck 0 4 ''/dump/'' (\<lambda>u. of_nat) ''a'' (ShaderUid_ctor [1, 2, 3, 4]) ''Pixel'' ''ps''
                   UidChecker_new)) = [ShaderUid_ctor [1, 2, 3, 4]]"
    by (simp add: AddToIndexAndCheck_def map_index_def UidChecker_new_def ShaderUid_ctor_def
        operator_eq_def operator_less_def uid_range_def)
  from same_text_twice [OF i h refl, of "''/dump/''" "\<lambda>u. of_nat" "''a''" "''Pixel''" "''ps''" "''Pixel''" "''ps''"]
    i h u show ?thesis
    by (simp add: UidChecker_new_def)
qed

text \<open>
  C5 (as amended). \<open>c\<close> is the checker after any operations \<open>ops\<close> since it was
  constructed, and \<open>c'\<close> the checker after one more call of \<open>AddToIndexAndCheck\<close>, with
  \<open>U\<close> and \<open>T\<close>. After the call the map associates \<open>U\<close> with a text: with \<open>T\<close> when \<open>U\<close>
  was not indexed before the call, and otherwise with the text it held before the call.
  When the fingerprints of the run are all of the size of \<open>U\<close> (they are records of one
  type), that text is the text of the first call for \<open>U\<close> since the last \<open>Invalidate\<close>.
  The text of every fingerprint that is not \<^verbatim>\<open>==\<close> to \<open>U\<close> is as before. On a mismatch,
  when the text \<open>old\<close> held for \<open>U\<close> differs from \<open>T\<close>, the counter of failures goes up by
  one, one dump file is written, with \<open>old\<close>, \<open>T\<close> and the hex dump of \<open>U\<close>, and one line
  is logged; the stored text is not replaced. Without a mismatch no file is written and
  nothing is logged.
\<close>

theorem stored_text_after_Add:
  assumes "c = run_ops sv nv up v ops UidChecker_new"
    and "c' = AddToIndexAndCheck sv nv up v T U st px c"
  shows "stored_text sv nv c' U = (if is_indexed sv nv c U then stored_text sv nv c U else Some T) \<and>
         stored_text sv nv c' U \<noteq> None \<and>
         ((\<forall>V \<in> set (uids_of ops). GetUidDataSize V = GetUidDataSize U) \<longrightarrow>
            stored_text sv nv c' U = first_text sv nv U (ops @ [Add T U st px])) \<and>
         (\<forall>U'. \<not> operator_eq sv nv U' U \<longrightarrow> stored_text sv nv c' U' = stored_text sv nv c U') \<and>
         (\<forall>old. stored_text sv nv c U = Some old \<and> old \<noteq> T \<longrightarrow>
            num_failures c' = num_failures c + 1 \<and>
            dump_files c' = dump_files c @
              [(up @ px @ ''suid_mismatch_'' @ printf_04i (num_failures c + 1) @ ''.txt'',
                ''Old shader code:\<newline>'' @ old @ ''\<newline>\<newline>New shader code:\<newline>'' @ T @
                ''\<newline>\<newline>Shader uid:\<newline>'' @ dump_uid (v U) (GetUidDataSize U))] \<and>
            error_log c' = error_log c @
              [st @ '' shader uid mismatch! See '' @
               (up @ px @ ''suid_mismatch_'' @ printf_04i (num_failures c + 1) @ ''.txt'') @
               '' for details'']) \<and>
         (stored_text sv nv c U = None \<or> stored_text sv nv c U = Some T \<longrightarrow>
            num_failures c' = num_failures c \<and> dump_files c' = dump_files c \<and>
            error_log c' = error_log c)"
proof -
  have inv: "checker_inv sv nv c"
    unfolding assms(1) by (rule checker_inv_run_ops [OF checker_inv_new])
  have key: "is_indexed sv nv c U \<longleftrightarrow> stored_text sv nv c U \<noteq> None"
    unfolding is_indexed_def stored_text_def
    using inv indexed_iff_key [of "m_shaders c" "m_uids c" sv nv U] by (simp add: checker_inv_def)
  have sh: "m_shaders c' = (if is_indexed sv nv c U then m_shaders c else m_shaders c @ [(U, T)])"
    unfolding assms(2) is_indexed_def by (rule shaders_after_Add [OF inv])
  have 1: "stored_text sv nv c' U = (if is_indexed sv nv c U then stored_text sv nv c U else Some T)"
  proof (cases "is_indexed sv nv c U")
    case True
    then show ?thesis by (simp add: sh stored_text_def)
  next
    case False
    with key have "map_find (operator_less sv nv) (m_shaders c) U = None"
      by (simp add: stored_text_def)
    with False show ?thesis
      by (simp add: sh stored_text_def map_find_snoc not_less_self)
  qed
  have 2: "stored_text sv nv c' U \<noteq> None"
    using 1 key by (cases "is_indexed sv nv c U") simp_all
  have 3: "stored_text sv nv c' U = first_text sv nv U (ops @ [Add T U st px])"
    if "\<forall>V \<in> set (uids_of ops). GetUidDataSize V = GetUidDataSize U"
  proof -
    from that have "\<forall>V \<in> set (uids_of (ops @ [Add T U st px])). GetUidDataSize V = GetUidDataSize U"
      by simp
    from stored_is_first [OF this, of sv nv up v] show ?thesis
      by (simp add: stored_text_def assms run_ops_snoc)
  qed
  have 4: "stored_text sv nv c' U' = stored_text sv nv c U'" if "\<not> operator_eq sv nv U' U" for U'
  proof (cases "is_indexed sv nv c U")
    case True
    then show ?thesis by (simp add: sh stored_text_def)
  next
    case False
    from that have "\<not> (\<not> operator_less sv nv U U' \<and> \<not> operator_less sv nv U' U)"
      by (auto simp: operator_eq_iff_unordered)
    with False show ?thesis
      by (simp add: sh stored_text_def map_find_snoc split: option.splits)
  qed
  have 5: "num_failures c' = num_failures c + 1 \<and>
            dump_files c' = dump_files c @
              [(up @ px @ ''suid_mismatch_'' @ printf_04i (num_failures c + 1) @ ''.txt'',
                ''Old shader code:\<newline>'' @ old @ ''\<newline>\<newline>New shader code:\<newline>'' @ T @
                ''\<newline>\<newline>Shader uid:\<newline>'' @ dump_uid (v U) (GetUidDataSize U))] \<and>
            error_log c' = error_log c @
              [st @ '' shader uid mismatch! See '' @
               (up @ px @ ''suid_mismatch_'' @ printf_04i (num_failures c + 1) @ ''.txt'') @
               '' for details'']"
    if "stored_text sv nv c U = Some old \<and> old \<noteq> T" for old
  proof -
    from that key have i: "list_ex (\<lambda>u. operator_eq sv nv u U) (m_uids c)"
      by (simp add: is_indexed_def)
    from that have f: "map_find (operator_less sv nv) (m_shaders c) U = Some old" and n: "old \<noteq> T"
      by (simp_all add: stored_text_def)
    show ?thesis
      unfolding assms(2) Add_again_other [OF i f n] by simp
  qed
  have 6: "num_failures c' = num_failures c \<and> dump_files c' = dump_files c \<and>
            error_log c' = error_log c"
    if "stored_text sv nv c U = None \<or> stored_text sv nv c U = Some T"
  proof (cases "is_indexed sv nv c U")
    case True
    with key that have f: "map_find (operator_less sv nv) (m_shaders c) U = Some T"
      by (auto simp: stored_text_def)
    from True have i: "list_ex (\<lambda>u. operator_eq sv nv u U) (m_uids c)"
      by (simp add: is_indexed_def)
    show ?thesis unfolding assms(2) Add_again_same [OF i f] by simp
  next
    case False
    then have "\<not> list_ex (\<lambda>u. operator_eq sv nv u U) (m_uids c)"
      by (simp add: is_indexed_def)
    then show ?thesis unfolding assms(2) by (simp add: Add_first)
  qed
  from 1 2 3 4 5 6 show ?thesis by blast
qed

theorem stored_text_after_Add_witness:
  "uids_of [Add ''x'' (ShaderUid_ctor [8, 9, 7]) ''Vertex'' ''vs''] = [ShaderUid_ctor [8, 9, 7]] \<and>
   GetUidDataSize (ShaderUid_ctor [8, 9, 7]) = GetUidDataSize (ShaderUid_ctor [8, 9, 0]) \<and>
   stored_text 0 2
     (run_ops 0 2 ''/d/'' (\<lambda>u. of_nat) [Add ''x'' (ShaderUid_ctor [8, 9, 7]) ''Vertex'' ''vs''] UidChecker_new)
     (ShaderUid_ctor [8, 9, 0]) = Some ''x'' \<and>
   ''x'' \<noteq> ''y'' \<and>
   stored_text 0 2
     (AddToIndexAndCheck 0 2 ''/d/'' (\<lambda>u. of_nat) ''y'' (ShaderUid_ctor [8, 9, 0]) ''Vertex'' ''vs''
        (run_ops 0 2 ''/d/'' (\<lambda>u. of_nat) [Add ''x'' (ShaderUid_ctor [8, 9, 7]) ''Vertex'' ''vs''] UidChecker_new))
     (ShaderUid_ctor [8, 9, 0]) = Some ''x'' \<and>
   first_text 0 2 (ShaderUid_ctor [8, 9, 0])
     [Add ''x'' (ShaderUid_ctor [8, 9, 7]) ''Vertex'' ''vs'',
      Add ''y'' (ShaderUid_ctor [8, 9, 0]) ''Vertex'' ''vs''] = Some ''x'' \<and>
   dump_files
     (AddToIndexAndCheck 0 2 ''/d/'' (\<lambda>u. of_nat) ''y'' (ShaderUid_ctor [8, 9, 0]) ''Vertex'' ''vs''
        (run_ops 0 2 ''/d/'' (\<lambda>u. of_nat) [Add ''x'' (ShaderUid_ctor [8, 9, 7]) ''Vertex'' ''vs''] UidChecker_new)) =
     [(''/d/vssuid_mismatch_0001.txt'',
       ''Old shader code:\<newline>x\<newline>\<newline>New shader code:\<newline>y\<newline>\<newline>Shader uid:\<newline>Values  0 - 3: 00000000 00000001 00000002 '')] \<and>
   error_log
     (AddToIndexAndCheck 0 2 ''/d/'' (\<lambda>u. of_nat) ''y'' (ShaderUid_ctor [8, 9, 0]) ''Vertex'' ''vs''
        (run_ops 0 2 ''/d/'' (\<lambda>u. of_nat) [Add ''x'' (ShaderUid_ctor [8, 9, 7]) ''Vertex'' ''vs''] UidChecker_new)) =
     [''Vertex shader uid mismatch! See /d/vssuid_mismatch_0001.txt for details'']"
proof -
  let ?c = "run_ops 0 2 ''/d/'' (\<lambda>u. of_nat) [Add ''x'' (ShaderUid_ctor [8, 9, 7]) ''Vertex'' ''vs''] UidChecker_new"
  have g: "uids_of [Add ''x'' (ShaderUid_ctor [8, 9, 7]) ''Vertex'' ''vs''] = [ShaderUid_ctor [8, 9, 7]]"
    "GetUidDataSize (ShaderUid_ctor [8, 9, 7]) = GetUidDataSize (ShaderUid_ctor [8, 9, 0])"
    by (simp_all add: uids_of_def GetUidDataSize_def ShaderUid_ctor_def)
  then have h: "\<forall>V \<in> set (uids_of [Add ''x'' (ShaderUid_ctor [8, 9, 7]) ''Vertex'' ''vs'']).
      GetUidDataSize V = GetUidDataSize (ShaderUid_ctor [8, 9, 0])"
    by simp
  have o: "stored_text 0 2 ?c (ShaderUid_ctor [8, 9, 0]) = Some ''x''"
    by (simp add: stored_text_def run_ops_def AddToIndexAndCheck_def UidChecker_new_def
        ShaderUid_ctor_def operator_eq_def operator_less_def uid_range_def)
  have i: "is_indexed 0 2 ?c (ShaderUid_ctor [8, 9, 0])"
    by (simp add: is_indexed_def run_ops_def AddToIndexAndCheck_def UidChecker_new_def
        ShaderUid_ctor_def operator_eq_def uid_range_def)
  have t: "''x'' \<noteq> ''y''" by simp
  have n: "printf_04i (num_failures ?c + 1) = ''0001''"
    by code_simp
  have d: "dump_files ?c = []" "error_log ?c = []"
    by (simp_all add: run_ops_def AddToIndexAndCheck_def UidChecker_new_def)
  have u: "dump_uid (of_nat :: nat \<Rightarrow> u32) (GetUidDataSize (ShaderUid_ctor [8, 9, 0])) =
             ''Values  0 - 3: 00000000 00000001 00000002 ''"
    by code_simp
  from stored_text_after_Add [where sv = 0 and nv = 2 and up = "''/d/''" and v = "\<lambda>u. of_nat"
      and ops = "[Add ''x'' (ShaderUid_ctor [8, 9, 7]) ''Vertex'' ''vs'']" and T = "''y''"
      and U = "ShaderUid_ctor [8, 9, 0]" and st = "''Vertex''" and px = "''vs''", OF refl refl] h o t i
  show ?thesis
    by (auto simp: n d u g)
qed

text \<open>
  C5 as stated fails: after \<open>(''a'', U)\<close> and then \<open>(''b'', U)\<close> on a new checker the map
  still associates \<open>U\<close> with \<open>''a''\<close>, not with the text produced last.
\<close>

theorem stored_text_not_replaced:
  "map_find (operator_less 0 4)
     (m_shaders (AddToIndexAndCheck 0 4 ''/dump/'' (\<lambda>u. of_nat) ''b'' (ShaderUid_ctor [1, 2, 3, 4]) ''Pixel'' ''ps''
                  (AddToIndexAndCheck 0 4 ''/dump/'' (\<lambda>u. of_nat) ''a'' (ShaderUid_ctor [1, 2, 3, 4]) ''Pixel'' ''ps''
                     UidChecker_new)))
     (ShaderUid_ctor [1, 2, 3, 4]) = Some ''a'' \<and>
   Some ''a'' \<noteq> Some ''b''"
  by (simp add: AddToIndexAndCheck_def map_index_def UidChecker_new_def ShaderUid_ctor_def
      operator_eq_def operator_less_def uid_range_def)

text \<open>
  C10. After any sequence of \<open>AddToIndexAndCheck\<close> and \<open>Invalidate\<close> on a new checker,
  no uid of \<open>m_uids\<close> is \<^verbatim>\<open>==\<close> to a later one, no key of \<open>m_shaders\<close> is the key of a
  later entry, and the keys of \<open>m_shaders\<close> are the uids of \<open>m_uids\<close>. \<open>Invalidate\<close>
  leaves both empty.
\<close>

theorem UidChecker_invariant:
  "checker_inv sv nv (run_ops sv nv user_path u32_view ops UidChecker_new) \<and>
   m_uids (Invalidate c) = [] \<and> m_shaders (Invalidate c) = []"
  by (simp add: checker_inv_run_ops checker_inv_new Invalidate_def)

theorem UidChecker_invariant_witness:
  "checker_inv 0 4
     (run_ops 0 4 ''/dump/'' (\<lambda>u. of_nat)
        [Add ''a'' (ShaderUid_ctor [1, 2, 3, 4]) ''Pixel'' ''ps'',
         Add ''b'' (ShaderUid_ctor [1, 2, 3, 4]) ''Pixel'' ''ps'',
         Inv,
         Add ''c'' (ShaderUid_ctor [5, 6, 7, 8]) ''Pixel'' ''ps'',
         Add ''d'' (ShaderUid_ctor [1, 2, 3, 4]) ''Pixel'' ''ps'']
        UidChecker_new) \<and>
   m_uids
     (run_ops 0 4 ''/dump/'' (\<lambda>u. of_nat)
        [Add ''a'' (ShaderUid_ctor [1, 2, 3, 4]) ''Pixel'' ''ps'',
         Add ''b'' (ShaderUid_ctor [1, 2, 3, 4]) ''Pixel'' ''ps'',
         Inv,
         Add ''c'' (ShaderUid_ctor [5, 6, 7, 8]) ''Pixel'' ''ps'',
         Add ''d'' (ShaderUid_ctor [1, 2, 3, 4]) ''Pixel'' ''ps'']
        UidChecker_new) = [ShaderUid_ctor [5, 6, 7, 8], ShaderUid_ctor [1, 2, 3, 4]]"
proof -
  have "m_uids
     (run_ops 0 4 ''/dump/'' (\<lambda>u. of_nat)
        [Add ''a'' (ShaderUid_ctor [1, 2, 3, 4]) ''Pixel'' ''ps'',
         Add ''b'' (ShaderUid_ctor [1, 2, 3, 4]) ''Pixel'' ''ps'',
         Inv,
         Add ''c'' (ShaderUid_ctor [5, 6, 7, 8]) ''Pixel'' ''ps'',
         Add ''d'' (ShaderUid_ctor [1, 2, 3, 4]) ''Pixel'' ''ps'']
        UidChecker_new) = [ShaderUid_ctor [5, 6, 7, 8], ShaderUid_ctor [1, 2, 3, 4]]"
    by (simp add: run_ops_def AddToIndexAndCheck_def map_index_def Invalidate_def UidChecker_new_def
        ShaderUid_ctor_def operator_eq_def operator_less_def uid_range_def Let_def
        dump_uid_def GetUidDataSize_def)
  with UidChecker_invariant [of 0 4 "''/dump/''" "\<lambda>u. of_nat"] show ?thesis
    by blast
qed

section \<open>Properties of the texture conversion shader generator\<close>

subsection \<open>Stores into the buffer\<close>

lemma length_poke [simp]: "length (poke i cs buf) = length buf"
  by (induction cs arbitrary: i buf) simp_all

lemma nth_poke:
  "poke i cs buf ! j = (if i \<le> j \<and> j < i + length cs \<and> j < length buf then cs ! (j - i) else buf ! j)"
proof (induction cs arbitrary: i buf)
  case Nil
  then show ?case by auto
next
  case (Cons c cs)
  have "poke i (c # cs) buf ! j = poke (Suc i) cs (buf[i := c]) ! j" by simp
  also have "\<dots> = (if Suc i \<le> j \<and> j < Suc i + length cs \<and> j < length buf
                      then cs ! (j - Suc i) else buf[i := c] ! j)"
    by (simp add: Cons.IH)
  also have "\<dots> = (if i \<le> j \<and> j < i + length (c # cs) \<and> j < length buf
                      then (c # cs) ! (j - i) else buf ! j)"
    by (cases "j = i"; cases "i < length buf") (auto simp: nth_Cons' nth_list_update list_update_beyond)
  finally show ?case .
qed

lemma stmts_Nil [simp]: "stmts [] s = s"
  by (simp add: stmts_def)

lemma stmts_Cons [simp]: "stmts (c # cs) s = stmts cs (c s)"
  by (simp add: stmts_def)

lemma stmts_append: "stmts (cs @ ds) s = stmts ds (stmts cs s)"
  by (simp add: stmts_def)

lemma writer_id: "writer (\<lambda>s. s)"
  by (simp add: writer_def)

lemma writer_then:
  assumes "writer E" and "writer F"
  shows "writer (\<lambda>s. F (E s))"
  unfolding writer_def
proof (intro conjI allI impI)
  fix x
  show "length (text_buf (F (E x))) = length (text_buf x)"
    using assms by (simp add: writer_def)
  show "p x \<le> p (F (E x))"
    using assms by (meson writer_def order_trans)
  show "PanicAlerts (F (E x)) = PanicAlerts x"
    using assms by (simp add: writer_def)
next
  fix x i assume i: "p (F (E x)) < i"
  from assms(2) have "p (E x) \<le> p (F (E x))" by (simp add: writer_def)
  with i have "p (E x) < i" by simp
  with assms(1) have "text_buf (E x) ! i = text_buf x ! i" by (simp add: writer_def)
  moreover from assms(2) i have "text_buf (F (E x)) ! i = text_buf (E x) ! i" by (simp add: writer_def)
  ultimately show "text_buf (F (E x)) ! i = text_buf x ! i" by simp
next
  fix x y assume xy: "same_ctl x y"
  with assms(1) have 1: "same_ctl (E x) (E y)" by (simp add: writer_def)
  with assms(2) show "same_ctl (F (E x)) (F (E y))" by (simp add: writer_def)
next
  fix x y i assume xy: "same_ctl x y"
  with assms(1) have 1: "same_ctl (E x) (E y)" by (simp add: writer_def)
  from assms(1) xy have a: "text_buf (E x) ! i = text_buf (E y) ! i \<or>
      (text_buf (E x) ! i = text_buf x ! i \<and> text_buf (E y) ! i = text_buf y ! i)"
    unfolding writer_def by blast
  from assms(2) 1 have b: "text_buf (F (E x)) ! i = text_buf (F (E y)) ! i \<or>
      (text_buf (F (E x)) ! i = text_buf (E x) ! i \<and> text_buf (F (E y)) ! i = text_buf (E y) ! i)"
    unfolding writer_def by blast
  from a b show "text_buf (F (E x)) ! i = text_buf (F (E y)) ! i \<or>
      (text_buf (F (E x)) ! i = text_buf x ! i \<and> text_buf (F (E y)) ! i = text_buf y ! i)"
    by auto
qed

lemma writer_stmts: "list_all writer cs \<Longrightarrow> writer (stmts cs)"
proof (induction cs)
  case Nil
  have "stmts [] = (\<lambda>s::gen_state. s)" by (rule ext) simp
  then show ?case by (simp add: writer_id)
next
  case (Cons c cs)
  have "stmts (c # cs) = (\<lambda>s. stmts cs (c s))" by (rule ext) simp
  with Cons writer_then [of c "stmts cs"] show ?case by simp
qed

lemma WRITE_simps [simp]:
  "p (WRITE str s) = p s + length str"
  "length (text_buf (WRITE str s)) = length (text_buf s)"
  "IntensityConstantAdded (WRITE str s) = IntensityConstantAdded s"
  "s_incrementSampleXCount (WRITE str s) = s_incrementSampleXCount s"
  "PanicAlerts (WRITE str s) = PanicAlerts s"
  by (simp_all add: WRITE_def)

lemma WRITE_beyond: "p s + length str < i \<Longrightarrow> text_buf (WRITE str s) ! i = text_buf s ! i"
  unfolding WRITE_def by (simp add: nth_poke)

lemma nth_poke_in:
  "i \<le> j \<and> j < i + length cs \<and> j < length buf \<Longrightarrow> poke i cs buf ! j = cs ! (j - i)"
  unfolding nth_poke by (rule if_P)

lemma nth_poke_out:
  "\<not> (i \<le> j \<and> j < i + length cs \<and> j < length buf) \<Longrightarrow> poke i cs buf ! j = buf ! j"
  unfolding nth_poke by (rule if_not_P)

lemma text_buf_WRITE: "text_buf (WRITE str s) = poke (p s) (str @ [CHR 0x00]) (text_buf s)"
  by (simp add: WRITE_def)

lemma WRITE_two:
  assumes "p x = p y" and "length (text_buf x) = length (text_buf y)"
  shows "text_buf (WRITE str x) ! i = text_buf (WRITE str y) ! i \<or>
         (text_buf (WRITE str x) ! i = text_buf x ! i \<and> text_buf (WRITE str y) ! i = text_buf y ! i)"
proof (cases "p x \<le> i \<and> i < p x + length (str @ [CHR 0x00]) \<and> i < length (text_buf x)")
  case True
  then have "text_buf (WRITE str x) ! i = (str @ [CHR 0x00]) ! (i - p x)"
    unfolding text_buf_WRITE by (rule nth_poke_in)
  moreover from True assms
  have "p y \<le> i \<and> i < p y + length (str @ [CHR 0x00]) \<and> i < length (text_buf y)" by simp
  then have "text_buf (WRITE str y) ! i = (str @ [CHR 0x00]) ! (i - p y)"
    unfolding text_buf_WRITE by (rule nth_poke_in)
  ultimately show ?thesis using assms by simp
next
  case False
  then have "text_buf (WRITE str x) ! i = text_buf x ! i"
    unfolding text_buf_WRITE by (rule nth_poke_out)
  moreover from False assms
  have "\<not> (p y \<le> i \<and> i < p y + length (str @ [CHR 0x00]) \<and> i < length (text_buf y))" by simp
  then have "text_buf (WRITE str y) ! i = text_buf y ! i"
    unfolding text_buf_WRITE by (rule nth_poke_out)
  ultimately show ?thesis by simp
qed

text \<open>A \<open>WRITE\<close> whose string depends on the two statics only.\<close>

lemma writer_WRITE_of:
  "writer (\<lambda>s. WRITE (f (IntensityConstantAdded s) (s_incrementSampleXCount s)) s)"
  unfolding writer_def
proof (intro conjI allI impI)
  fix x y i assume "same_ctl x y"
  then have e: "p x = p y" "length (text_buf x) = length (text_buf y)"
    "f (IntensityConstantAdded y) (s_incrementSampleXCount y) = f (IntensityConstantAdded x) (s_incrementSampleXCount x)"
    by (simp_all add: same_ctl_def)
  let ?str = "f (IntensityConstantAdded x) (s_incrementSampleXCount x)"
  from WRITE_two [OF e(1,2), of ?str i]
  show "text_buf (WRITE (f (IntensityConstantAdded x) (s_incrementSampleXCount x)) x) ! i =
        text_buf (WRITE (f (IntensityConstantAdded y) (s_incrementSampleXCount y)) y) ! i \<or>
        (text_buf (WRITE (f (IntensityConstantAdded x) (s_incrementSampleXCount x)) x) ! i = text_buf x ! i \<and>
         text_buf (WRITE (f (IntensityConstantAdded y) (s_incrementSampleXCount y)) y) ! i = text_buf y ! i)"
    unfolding e(3) .
qed (simp_all add: same_ctl_def WRITE_beyond)

lemma writer_WRITE [simp]: "writer (WRITE str)"
  using writer_WRITE_of [of "\<lambda>_ _. str"] by simp

subsection \<open>The helpers and the encoders are writers\<close>

lemma writerD1:
  assumes "writer E"
  shows "length (text_buf (E x)) = length (text_buf x)" and "p x \<le> p (E x)"
    and "PanicAlerts (E x) = PanicAlerts x"
    and "p (E x) < i \<Longrightarrow> text_buf (E x) ! i = text_buf x ! i"
  using assms unfolding writer_def by blast+

lemma writerD2:
  assumes "writer E" and "same_ctl x y"
  shows "same_ctl (E x) (E y)"
    and "text_buf (E x) ! i = text_buf (E y) ! i \<or>
         (text_buf (E x) ! i = text_buf x ! i \<and> text_buf (E y) ! i = text_buf y ! i)"
  using assms unfolding writer_def by blast+

lemma writer_if:
  assumes "writer E" and "writer F"
  shows "writer (\<lambda>s. if c (IntensityConstantAdded s) (s_incrementSampleXCount s) then E s else F s)"
    (is "writer ?G")
  unfolding writer_def
proof (intro conjI allI impI)
  fix x
  have G: "?G x = E x \<or> ?G x = F x" by simp
  from G writerD1(1) [OF assms(1)] writerD1(1) [OF assms(2)]
  show "length (text_buf (?G x)) = length (text_buf x)" by metis
  from G writerD1(2) [OF assms(1)] writerD1(2) [OF assms(2)]
  show "p x \<le> p (?G x)" by metis
  from G writerD1(3) [OF assms(1)] writerD1(3) [OF assms(2)]
  show "PanicAlerts (?G x) = PanicAlerts x" by metis
next
  fix x i assume "p (?G x) < i"
  then show "text_buf (?G x) ! i = text_buf x ! i"
    by (cases "c (IntensityConstantAdded x) (s_incrementSampleXCount x)")
      (simp_all add: writerD1(4) [OF assms(1)] writerD1(4) [OF assms(2)])
next
  fix x y assume xy: "same_ctl x y"
  then have c: "c (IntensityConstantAdded y) (s_incrementSampleXCount y) =
                c (IntensityConstantAdded x) (s_incrementSampleXCount x)"
    by (simp add: same_ctl_def)
  show "same_ctl (?G x) (?G y)"
    by (cases "c (IntensityConstantAdded x) (s_incrementSampleXCount x)")
      (simp_all add: c writerD2(1) [OF assms(1) xy] writerD2(1) [OF assms(2) xy])
  fix i
  show "text_buf (?G x) ! i = text_buf (?G y) ! i \<or>
        (text_buf (?G x) ! i = text_buf x ! i \<and> text_buf (?G y) ! i = text_buf y ! i)"
    using writerD2(2) [OF assms(1) xy, of i] writerD2(2) [OF assms(2) xy, of i]
    by (cases "c (IntensityConstantAdded x) (s_incrementSampleXCount x)") (simp_all add: c)
qed

lemma writer_set_flag: "writer (\<lambda>s. s\<lparr>IntensityConstantAdded := b\<rparr>)"
  unfolding writer_def same_ctl_def by simp

lemma writer_reset: "writer (\<lambda>s. s\<lparr>IntensityConstantAdded := b, s_incrementSampleXCount := n\<rparr>)"
  unfolding writer_def same_ctl_def by simp

lemma writer_WriteIncrementSampleX [simp]: "writer WriteIncrementSampleX"
proof -
  have eq: "WriteIncrementSampleX = (\<lambda>s. s\<lparr>s_incrementSampleXCount := s_incrementSampleXCount s + 1\<rparr>)"
    by (rule ext) (simp add: WriteIncrementSampleX_def)
  show ?thesis unfolding eq writer_def same_ctl_def by simp
qed

lemma writer_WriteSampleColor [simp]: "writer (WriteSampleColor X colorComp dest)"
proof -
  have eq: "WriteSampleColor X colorComp dest =
        (\<lambda>s. WRITE (''  '' @ dest @ '' = tex2D(samp0, sampleUv + float2('' @
            printf_d (s_incrementSampleXCount s) @ ''.0f * ('' @ I_COLORS X @ ''[0].x / '' @
            I_COLORS X @ ''[0].z), 0.0f)).'' @ colorComp @ '';\<newline>'') s)"
    by (rule ext) (simp add: WriteSampleColor_def)
  show ?thesis
    unfolding eq
    using writer_WRITE_of [of "\<lambda>b n. ''  '' @ dest @ '' = tex2D(samp0, sampleUv + float2('' @
            printf_d n @ ''.0f * ('' @ I_COLORS X @ ''[0].x / '' @
            I_COLORS X @ ''[0].z), 0.0f)).'' @ colorComp @ '';\<newline>''"]
    by simp
qed

lemma writer_WriteColorToIntensity [simp]: "writer (WriteColorToIntensity src dest)"
proof -
  let ?c = "''  float4 IntensityConst = float4(0.257f,0.504f,0.098f,0.0625f);\<newline>''"
  let ?str = "''  '' @ dest @ '' = dot(IntensityConst.rgb, '' @ src @ ''.rgb);\<newline>''"
  have 1: "writer (\<lambda>s. (WRITE ?c s)\<lparr>IntensityConstantAdded := True\<rparr>)"
    by (rule writer_then [OF writer_WRITE writer_set_flag])
  have 2: "writer (\<lambda>s. if \<not> IntensityConstantAdded s
                        then (WRITE ?c s)\<lparr>IntensityConstantAdded := True\<rparr> else s)"
    using writer_if [OF 1 writer_id, of "\<lambda>b n. \<not> b"] by simp
  have eq: "WriteColorToIntensity src dest =
        (\<lambda>s. WRITE ?str (if \<not> IntensityConstantAdded s
                        then (WRITE ?c s)\<lparr>IntensityConstantAdded := True\<rparr> else s))"
    by (rule ext) (simp add: WriteColorToIntensity_def)
  show ?thesis
    unfolding eq by (rule writer_then [OF 2 writer_WRITE])
qed

lemma writer_WriteToBitDepth [simp]: "writer (WriteToBitDepth depth src dest)"
  by (simp add: WriteToBitDepth_def)

lemma writer_WriteEncoderEnd [simp]: "writer WriteEncoderEnd"
proof -
  have eq: "WriteEncoderEnd = (\<lambda>s. (WRITE ''}\<newline>'' s)\<lparr>IntensityConstantAdded := False, s_incrementSampleXCount := 0\<rparr>)"
    by (rule ext) (simp add: WriteEncoderEnd_def)
  show ?thesis
    unfolding eq by (rule writer_then [OF writer_WRITE writer_reset])
qed

lemma writer_WriteSwizzler [simp]: "writer (WriteSwizzler X format)"
  unfolding WriteSwizzler_def Let_def by (rule writer_stmts) simp

lemma writer_Write32BitSwizzler [simp]: "writer (Write32BitSwizzler X format)"
  unfolding Write32BitSwizzler_def Let_def by (rule writer_stmts) simp

declare writer_stmts [simp]

lemma WriteEncoderEnd_statics [simp]:
  "IntensityConstantAdded (WriteEncoderEnd s) = False"
  "s_incrementSampleXCount (WriteEncoderEnd s) = 0"
  by (simp_all add: WriteEncoderEnd_def)

lemma writer_WriteI8Encoder [simp]: "writer (WriteI8Encoder X)"
  unfolding WriteI8Encoder_def by simp

lemma WriteI8Encoder_statics [simp]:
  "IntensityConstantAdded (WriteI8Encoder X s) = False"
  "s_incrementSampleXCount (WriteI8Encoder X s) = 0"
  unfolding WriteI8Encoder_def by simp_all

lemma writer_WriteI4Encoder [simp]: "writer (WriteI4Encoder X)"
  unfolding WriteI4Encoder_def by simp

lemma WriteI4Encoder_statics [simp]:
  "IntensityConstantAdded (WriteI4Encoder X s) = False"
  "s_incrementSampleXCount (WriteI4Encoder X s) = 0"
  unfolding WriteI4Encoder_def by simp_all

lemma writer_WriteIA8Encoder [simp]: "writer (WriteIA8Encoder X)"
  unfolding WriteIA8Encoder_def by simp

lemma WriteIA8Encoder_statics [simp]:
  "IntensityConstantAdded (WriteIA8Encoder X s) = False"
  "s_incrementSampleXCount (WriteIA8Encoder X s) = 0"
  unfolding WriteIA8Encoder_def by simp_all

lemma writer_WriteIA4Encoder [simp]: "writer (WriteIA4Encoder X)"
  unfolding WriteIA4Encoder_def by simp

lemma WriteIA4Encoder_statics [simp]:
  "IntensityConstantAdded (WriteIA4Encoder X s) = False"
  "s_incrementSampleXCount (WriteIA4Encoder X s) = 0"
  unfolding WriteIA4Encoder_def by simp_all

lemma writer_WriteRGB565Encoder [simp]: "writer (WriteRGB565Encoder X)"
  unfolding WriteRGB565Encoder_def by simp

lemma WriteRGB565Encoder_statics [simp]:
  "IntensityConstantAdded (WriteRGB565Encoder X s) = False"
  "s_incrementSampleXCount (WriteRGB565Encoder X s) = 0"
  unfolding WriteRGB565Encoder_def by simp_all

lemma writer_WriteRGB5A3Encoder [simp]: "writer (WriteRGB5A3Encoder X)"
  unfolding WriteRGB5A3Encoder_def by simp

lemma WriteRGB5A3Encoder_statics [simp]:
  "IntensityConstantAdded (WriteRGB5A3Encoder X s) = False"
  "s_incrementSampleXCount (WriteRGB5A3Encoder X s) = 0"
  unfolding WriteRGB5A3Encoder_def by simp_all

lemma writer_WriteRGBA4443Encoder [simp]: "writer (WriteRGBA4443Encoder X)"
  unfolding WriteRGBA4443Encoder_def by simp

lemma WriteRGBA4443Encoder_statics [simp]:
  "IntensityConstantAdded (WriteRGBA4443Encoder X s) = False"
  "s_incrementSampleXCount (WriteRGBA4443Encoder X s) = 0"
  unfolding WriteRGBA4443Encoder_def by simp_all

lemma writer_WriteRGBA8Encoder [simp]: "writer (WriteRGBA8Encoder X)"
  unfolding WriteRGBA8Encoder_def by simp

lemma WriteRGBA8Encoder_statics [simp]:
  "IntensityConstantAdded (WriteRGBA8Encoder X s) = False"
  "s_incrementSampleXCount (WriteRGBA8Encoder X s) = 0"
  unfolding WriteRGBA8Encoder_def by simp_all

lemma writer_WriteC4Encoder [simp]: "writer (WriteC4Encoder X comp')"
  unfolding WriteC4Encoder_def by simp

lemma WriteC4Encoder_statics [simp]:
  "IntensityConstantAdded (WriteC4Encoder X comp' s) = False"
  "s_incrementSampleXCount (WriteC4Encoder X comp' s) = 0"
  unfolding WriteC4Encoder_def by simp_all

lemma writer_WriteC8Encoder [simp]: "writer (WriteC8Encoder X comp')"
  unfolding WriteC8Encoder_def by simp

lemma WriteC8Encoder_statics [simp]:
  "IntensityConstantAdded (WriteC8Encoder X comp' s) = False"
  "s_incrementSampleXCount (WriteC8Encoder X comp' s) = 0"
  unfolding WriteC8Encoder_def by simp_all

lemma writer_WriteCC4Encoder [simp]: "writer (WriteCC4Encoder X comp')"
  unfolding WriteCC4Encoder_def by simp

lemma WriteCC4Encoder_statics [simp]:
  "IntensityConstantAdded (WriteCC4Encoder X comp' s) = False"
  "s_incrementSampleXCount (WriteCC4Encoder X comp' s) = 0"
  unfolding WriteCC4Encoder_def by simp_all

lemma writer_WriteCC8Encoder [simp]: "writer (WriteCC8Encoder X comp')"
  unfolding WriteCC8Encoder_def by simp

lemma WriteCC8Encoder_statics [simp]:
  "IntensityConstantAdded (WriteCC8Encoder X comp' s) = False"
  "s_incrementSampleXCount (WriteCC8Encoder X comp' s) = 0"
  unfolding WriteCC8Encoder_def by simp_all

lemma writer_WriteZ8Encoder [simp]: "writer (WriteZ8Encoder X multiplier)"
  unfolding WriteZ8Encoder_def by simp

lemma WriteZ8Encoder_statics [simp]:
  "IntensityConstantAdded (WriteZ8Encoder X multiplier s) = False"
  "s_incrementSampleXCount (WriteZ8Encoder X multiplier s) = 0"
  unfolding WriteZ8Encoder_def by simp_all

lemma writer_WriteZ16Encoder [simp]: "writer (WriteZ16Encoder X)"
  unfolding WriteZ16Encoder_def by simp

lemma WriteZ16Encoder_statics [simp]:
  "IntensityConstantAdded (WriteZ16Encoder X s) = False"
  "s_incrementSampleXCount (WriteZ16Encoder X s) = 0"
  unfolding WriteZ16Encoder_def by simp_all

lemma writer_WriteZ16LEncoder [simp]: "writer (WriteZ16LEncoder X)"
  unfolding WriteZ16LEncoder_def by simp

lemma WriteZ16LEncoder_statics [simp]:
  "IntensityConstantAdded (WriteZ16LEncoder X s) = False"
  "s_incrementSampleXCount (WriteZ16LEncoder X s) = 0"
  unfolding WriteZ16LEncoder_def by simp_all

lemma writer_WriteZ24Encoder_loop [simp]: "writer (WriteZ24Encoder_loop i)"
  unfolding WriteZ24Encoder_loop_def by simp

lemma writer_WriteZ24Encoder [simp]: "writer (WriteZ24Encoder X)"
  unfolding WriteZ24Encoder_def by simp

lemma WriteZ24Encoder_statics [simp]:
  "IntensityConstantAdded (WriteZ24Encoder X s) = False"
  "s_incrementSampleXCount (WriteZ24Encoder X s) = 0"
  unfolding WriteZ24Encoder_def by simp_all

subsection \<open>The dispatcher\<close>

lemma writer_dispatch: "recognized f \<Longrightarrow> writer (dispatch X f)"
  by (cases f) simp_all

lemma dispatch_statics:
  "recognized f \<Longrightarrow> IntensityConstantAdded (dispatch X f s) = False"
  "recognized f \<Longrightarrow> s_incrementSampleXCount (dispatch X f s) = 0"
  by (cases f; simp)+

lemma dispatch_Other:
  "\<not> recognized f \<Longrightarrow> \<exists>w. f = Other_format w"
  by (cases f) simp_all

lemma dispatch_length [simp]: "length (text_buf (dispatch X f s)) = length (text_buf s)"
proof (cases "recognized f")
  case True
  then show ?thesis by (rule writerD1(1) [OF writer_dispatch])
next
  case False
  then show ?thesis by (auto dest!: dispatch_Other simp: PanicAlert_def)
qed

lemma dispatch_beyond:
  assumes "p (dispatch X f s) < i"
  shows "text_buf (dispatch X f s) ! i = text_buf s ! i"
proof (cases "recognized f")
  case True
  from writerD1(4) [OF writer_dispatch [OF True] assms] show ?thesis .
next
  case False
  then show ?thesis by (auto dest!: dispatch_Other simp: PanicAlert_def)
qed

lemma set_canary_simps [simp]:
  "p (set_canary s) = 0"
  "length (text_buf (set_canary s)) = length (text_buf s)"
  "IntensityConstantAdded (set_canary s) = IntensityConstantAdded s"
  "s_incrementSampleXCount (set_canary s) = s_incrementSampleXCount s"
  "PanicAlerts (set_canary s) = PanicAlerts s"
  "text_buf (set_canary s) = (text_buf s)[sizeof_text - 1 := CHR 0x7C]"
  by (simp_all add: set_canary_def)

lemma check_canary_simps [simp]:
  "p (check_canary s) = p s"
  "text_buf (check_canary s) = text_buf s"
  "IntensityConstantAdded (check_canary s) = IntensityConstantAdded s"
  "s_incrementSampleXCount (check_canary s) = s_incrementSampleXCount s"
  by (simp_all add: check_canary_def PanicAlert_def)

lemma canary_set:
  "length (text_buf s) = sizeof_text \<Longrightarrow> text_buf (set_canary s) ! (sizeof_text - 1) = CHR 0x7C"
  by (simp add: sizeof_text_def)

lemma Generate_length [simp]:
  "length (text_buf (GenerateEncodingShader X f s)) = length (text_buf s)"
  by (simp add: GenerateEncodingShader_def)

lemma gen_inv_Generate:
  assumes "gen_inv s"
  shows "gen_inv (GenerateEncodingShader X f s)"
proof (cases "recognized f")
  case True
  with assms show ?thesis
    by (simp add: gen_inv_def GenerateEncodingShader_def dispatch_statics)
next
  case False
  with assms show ?thesis
    by (auto dest!: dispatch_Other simp: gen_inv_def GenerateEncodingShader_def PanicAlert_def)
qed

lemma gen_inv_initial: "gen_inv gen_initial"
  by (simp add: gen_inv_def gen_initial_def)

lemma gen_inv_generate_all: "gen_inv s \<Longrightarrow> gen_inv (generate_all X fs s)"
  unfolding generate_all_def by (induction fs arbitrary: s) (simp_all add: gen_inv_Generate)

lemma repeat_same_buffer:
  assumes "gen_inv s"
  shows "text_buf (GenerateEncodingShader X f (GenerateEncodingShader X f s)) =
         text_buf (GenerateEncodingShader X f s)"
proof -
  let ?k = "sizeof_text - 1"
  let ?a = "set_canary s"
  let ?s1 = "GenerateEncodingShader X f s"
  let ?b = "set_canary ?s1"
  have len: "length (text_buf s) = sizeof_text" and k: "?k < sizeof_text"
    using assms by (simp_all add: gen_inv_def sizeof_text_def)
  have s1: "text_buf ?s1 = text_buf (dispatch X f ?a)"
    by (simp add: GenerateEncodingShader_def)
  have b: "text_buf ?b = (text_buf (dispatch X f ?a))[?k := CHR 0x7C]"
    by (simp add: s1)
  have goal: "text_buf (dispatch X f ?b) = text_buf (dispatch X f ?a)"
  proof (cases "recognized f")
    case False
    then obtain w where f: "f = Other_format w" by (auto dest: dispatch_Other)
    show ?thesis by (simp add: f PanicAlert_def GenerateEncodingShader_def)
  next
    case True
    note w = writer_dispatch [OF True, of X]
    have "same_ctl ?a ?b"
      using assms True
      by (simp add: same_ctl_def gen_inv_def GenerateEncodingShader_def dispatch_statics)
    note two = writerD2(2) [OF w this]
    show ?thesis
    proof (rule nth_equalityI)
      show "length (text_buf (dispatch X f ?b)) = length (text_buf (dispatch X f ?a))"
        by (simp add: GenerateEncodingShader_def)
    next
      fix i assume "i < length (text_buf (dispatch X f ?b))"
      then have i: "i < sizeof_text" by (simp add: GenerateEncodingShader_def len)
      from two [of i] show "text_buf (dispatch X f ?b) ! i = text_buf (dispatch X f ?a) ! i"
      proof
        assume "text_buf (dispatch X f ?a) ! i = text_buf (dispatch X f ?b) ! i"
        then show ?thesis by simp
      next
        assume u: "text_buf (dispatch X f ?a) ! i = text_buf ?a ! i \<and>
                   text_buf (dispatch X f ?b) ! i = text_buf ?b ! i"
        show ?thesis
        proof (cases "i = ?k")
          case True
          with u len k show ?thesis by (simp add: s1 [symmetric])
        next
          case False
          with u show ?thesis by (simp add: s1)
        qed
      qed
    qed
  qed
  have "text_buf (GenerateEncodingShader X f ?s1) = text_buf (dispatch X f ?b)"
    by (simp add: GenerateEncodingShader_def)
  with goal s1 show ?thesis by simp
qed

subsection \<open>Evaluating printf\<close>

lemma dec_digits_numerals:
  "dec_digits 0 = ''0''"
  "dec_digits 1 = ''1''"
  "dec_digits (Suc 0) = ''1''"
  "dec_digits (numeral k) =
     (if numeral k < (10::nat) then [digit_char (numeral k)]
      else dec_digits (numeral k div 10) @ [digit_char (numeral k mod 10)])"
  by (simp_all add: dec_digits.simps [of 0] dec_digits.simps [of 1] dec_digits.simps [of "Suc 0"]
      dec_digits.simps [of "numeral k"] digit_char_def)

lemma hex_digits_numerals:
  "hex_digits 0 = ''0''"
  "hex_digits 1 = ''1''"
  "hex_digits (Suc 0) = ''1''"
  "hex_digits (numeral k) =
     (if numeral k < (16::nat) then [digit_char (numeral k)]
      else hex_digits (numeral k div 16) @ [digit_char (numeral k mod 16)])"
  by (simp_all add: hex_digits.simps [of 0] hex_digits.simps [of 1] hex_digits.simps [of "Suc 0"]
      hex_digits.simps [of "numeral k"] digit_char_def)

lemma replicate_numeral: "replicate (numeral k) x = x # replicate (pred_numeral k) x"
  by (simp add: numeral_eq_Suc)

lemmas printf_eval = replicate_numeral
  printf_f_def printf_d_def printf_x_def round_half_even_def bit_depth_result_def setw_def
  dec_digits_numerals hex_digits_numerals digit_char_def Let_def

lemma bit_depth_literals:
  "printf_f (bit_depth_result 3) = ''7.968750''"
  "printf_f (bit_depth_result 4) = ''15.937500''"
  "printf_f (bit_depth_result 5) = ''31.875000''"
  "printf_f (bit_depth_result 6) = ''63.750000''"
  "printf_f (bit_depth_result 8) = ''255.000000''"
  by (simp_all add: printf_eval)

lemma bit_depth_values:
  "decimal_value ''7.968750'' = 255 / 2 ^ 5"
  "decimal_value ''15.937500'' = 255 / 2 ^ 4"
  "decimal_value ''31.875000'' = 255 / 2 ^ 3"
  "decimal_value ''63.750000'' = 255 / 2 ^ 2"
  "decimal_value ''255.000000'' = 255 / 2 ^ 0"
  by (simp_all add: decimal_value_def digits_value_def)

lemma quantize_values: "quantize 1 5 = 31" "quantize (1 / 2) 8 = 127"
  by code_simp+

lemma WriteSampleColor_simps [simp]:
  "p (WriteSampleColor X colorComp dest s) =
     p s + length (''  '' @ dest @ '' = tex2D(samp0, sampleUv + float2('' @
            printf_d (s_incrementSampleXCount s) @ ''.0f * ('' @ I_COLORS X @ ''[0].x / '' @
            I_COLORS X @ ''[0].z), 0.0f)).'' @ colorComp @ '';\<newline>'')"
  "IntensityConstantAdded (WriteSampleColor X colorComp dest s) = IntensityConstantAdded s"
  "s_incrementSampleXCount (WriteSampleColor X colorComp dest s) = s_incrementSampleXCount s"
  by (simp_all add: WriteSampleColor_def)

lemma WriteIncrementSampleX_simps [simp]:
  "p (WriteIncrementSampleX s) = p s"
  "IntensityConstantAdded (WriteIncrementSampleX s) = IntensityConstantAdded s"
  "s_incrementSampleXCount (WriteIncrementSampleX s) = s_incrementSampleXCount s + 1"
  by (simp_all add: WriteIncrementSampleX_def)

lemma WriteEncoderEnd_p [simp]: "p (WriteEncoderEnd s) = p s + 2"
  by (simp add: WriteEncoderEnd_def)

lemma sample_floats:
  "float_of_int 2 = Finite 2" "float_of_int 4 = Finite 4" "float_of_int 8 = Finite 8"
  by code_simp+

lemma sample_literals:
  "printf_f (Finite 2) = ''2.000000''" "printf_f (Finite 4) = ''4.000000''"
  "printf_f (Finite 8) = ''8.000000''"
  "printf_d 0 = ''0''" "printf_d 1 = ''1''"
  "WriteRegister ''c'' 0 = '' : register(c0)''"
  by (simp_all add: printf_eval WriteRegister_def)

lemma gen_initial_simps [simp]:
  "p gen_initial = 0" "\<not> IntensityConstantAdded gen_initial"
  "s_incrementSampleXCount gen_initial = 0" "PanicAlerts gen_initial = []"
  "length (text_buf gen_initial) = sizeof_text"
  by (simp_all add: gen_initial_def)

lemma sample_RA8_length:
  "p (dispatch sample_externals GX_CTF_RA8 (set_canary gen_initial)) = 948"
  by (simp add: WriteCC8Encoder_def WriteSwizzler_def sample_externals_def sample_floats
      sample_literals)

subsection \<open>What a store leaves in the buffer\<close>

lemma take_poke: "take i (poke i cs buf) = take i buf"
  by (rule nth_equalityI) (simp_all add: nth_poke)

lemma take_drop_poke:
  assumes "i + length cs \<le> length buf"
  shows "take (length cs) (drop i (poke i cs buf)) = cs"
  using assms by (intro nth_equalityI) (simp_all add: nth_poke)

lemma WRITE_emits:
  assumes "p s + length str < length (text_buf s)"
  shows "emitted s (WRITE str s) = str"
    and "take (p s) (text_buf (WRITE str s)) = take (p s) (text_buf s)"
    and "text_buf (WRITE str s) ! p (WRITE str s) = CHR 0x00"
proof -
  from assms have "p s + length (str @ [CHR 0x00]) \<le> length (text_buf s)" by simp
  from take_drop_poke [OF this]
  have "take (length str) (take (length (str @ [CHR 0x00])) (drop (p s) (text_buf (WRITE str s)))) =
        take (length str) (str @ [CHR 0x00])"
    by (simp only: text_buf_WRITE)
  then show "emitted s (WRITE str s) = str"
    by (simp add: emitted_def min_def)
  show "take (p s) (text_buf (WRITE str s)) = take (p s) (text_buf s)"
    by (simp only: text_buf_WRITE take_poke)
  from assms show "text_buf (WRITE str s) ! p (WRITE str s) = CHR 0x00"
    by (simp add: text_buf_WRITE nth_poke)
qed

lemma c_str_emitted:
  assumes "take n buf = str" and "n < length buf" and "buf ! n = CHR 0x00"
    and "CHR 0x00 \<notin> set str"
  shows "c_str buf = str"
proof -
  have "buf = take n buf @ drop n buf" by simp
  also from assms(2) have "drop n buf = buf ! n # drop (Suc n) buf"
    by (simp add: Cons_nth_drop_Suc)
  finally have "buf = str @ CHR 0x00 # drop (Suc n) buf"
    using assms(1,3) by simp
  then have "c_str buf = takeWhile (\<lambda>c. c \<noteq> CHR 0x00) (str @ CHR 0x00 # drop (Suc n) buf)"
    by (simp add: c_str_def)
  also have "\<dots> = str"
    using assms(4) by (subst takeWhile_append2) auto
  finally show ?thesis .
qed

subsection \<open>The claims about the generator\<close>

text \<open>
  C6. \<open>GenerateEncodingShader\<close> stores the canary 0x7C in the last byte of the
  buffer before the \<^verbatim>\<open>switch\<close> runs (state \<open>s0\<close>). After the \<^verbatim>\<open>switch\<close> (state \<open>s1\<close>) it
  appends the buffer-overflow alert if and only if that byte is no longer 0x7C, and
  changes nothing else. When the cursor has stayed below the last byte, that is, the
  emitted text and its terminating 0 lie in front of the canary, the byte is still
  0x7C and no alert is raised.
\<close>

theorem canary_detects_overflow:
  assumes "length (text_buf s) = sizeof_text"
    and "s0 = set_canary s" and "s1 = dispatch X f s0"
  shows "text_buf s0 ! (sizeof_text - 1) = CHR 0x7C \<and>
         GenerateEncodingShader X f s =
           (if text_buf s1 ! (sizeof_text - 1) \<noteq> CHR 0x7C
            then s1\<lparr>PanicAlerts := PanicAlerts s1 @ [canary_alert]\<rparr> else s1) \<and>
         (p s1 < sizeof_text - 1 \<longrightarrow>
            text_buf s1 ! (sizeof_text - 1) = CHR 0x7C \<and> GenerateEncodingShader X f s = s1)"
proof -
  have c: "text_buf s0 ! (sizeof_text - 1) = CHR 0x7C"
    unfolding assms(2) using assms(1) by (rule canary_set)
  have g: "GenerateEncodingShader X f s =
           (if text_buf s1 ! (sizeof_text - 1) \<noteq> CHR 0x7C
            then s1\<lparr>PanicAlerts := PanicAlerts s1 @ [canary_alert]\<rparr> else s1)"
    by (simp add: GenerateEncodingShader_def check_canary_def PanicAlert_def assms(2,3))
  have "text_buf s1 ! (sizeof_text - 1) = CHR 0x7C" if "p s1 < sizeof_text - 1"
    using dispatch_beyond [of X f s0 "sizeof_text - 1"] that c by (simp add: assms(3))
  with c g show ?thesis by simp
qed

theorem canary_detects_overflow_witness:
  "length (text_buf gen_initial) = sizeof_text \<and>
   p (dispatch sample_externals GX_CTF_RA8 (set_canary gen_initial)) = 948 \<and>
   (948::nat) < sizeof_text - 1 \<and>
   text_buf (dispatch sample_externals GX_CTF_RA8 (set_canary gen_initial)) ! (sizeof_text - 1) = CHR 0x7C \<and>
   GenerateEncodingShader sample_externals GX_CTF_RA8 gen_initial =
     dispatch sample_externals GX_CTF_RA8 (set_canary gen_initial)"
proof -
  have l: "length (text_buf gen_initial) = sizeof_text" by simp
  have f: "(948::nat) < sizeof_text - 1" by (simp add: sizeof_text_def)
  from canary_detects_overflow [OF l refl refl, of sample_externals GX_CTF_RA8] f
  show ?thesis
    by (simp only: sample_RA8_length l) simp
qed

text \<open>
  C7. For a format code that the \<^verbatim>\<open>switch\<close> has no case for, \<open>GenerateEncodingShader\<close>
  raises the alert that names the code in hexadecimal, and only that one; the cursor
  stays at the start of the buffer, no encoder runs, and no byte of the buffer in
  front of the canary changes.
\<close>

theorem unknown_format_is_alerted:
  assumes "length (text_buf s) = sizeof_text"
  shows "GenerateEncodingShader X (Other_format w) s =
           s\<lparr>text_buf := (text_buf s)[sizeof_text - 1 := CHR 0x7C], p := 0,
             PanicAlerts := PanicAlerts s @ [''Unknown texture copy format: 0x'' @ printf_x w @ ''\<newline>'']\<rparr> \<and>
         take (sizeof_text - 1) (text_buf (GenerateEncodingShader X (Other_format w) s)) =
           take (sizeof_text - 1) (text_buf s) \<and>
         \<not> recognized (Other_format w)"
  using assms
  by (simp add: GenerateEncodingShader_def set_canary_def check_canary_def PanicAlert_def
      unknown_format_alert_def sizeof_text_def)

theorem unknown_format_is_alerted_witness:
  "length (text_buf gen_initial) = sizeof_text \<and>
   PanicAlerts (GenerateEncodingShader sample_externals (Other_format 0x99) gen_initial) =
     [''Unknown texture copy format: 0x99\<newline>''] \<and>
   p (GenerateEncodingShader sample_externals (Other_format 0x99) gen_initial) = 0"
proof -
  have l: "length (text_buf gen_initial) = sizeof_text"
    by (simp add: gen_initial_def)
  have x: "printf_x 0x99 = ''99''" by (simp add: printf_eval)
  from unknown_format_is_alerted [OF l, of sample_externals "0x99"] l x show ?thesis
    by (simp add: gen_initial_def)
qed



text \<open>
  C9. After any requests \<open>fs\<close> since the program started, two calls of
  \<open>GenerateEncodingShader\<close> for the same format \<open>F\<close>, one right after the other, leave
  the same bytes in the buffer, hence return the same C string; and between the calls
  the flag is \<^verbatim>\<open>false\<close> and the counter 0. For a recognized \<open>F\<close> the encoder leaves them
  so from any state: its last statement is \<open>WriteEncoderEnd\<close>.
\<close>

theorem repeated_generation_same_text:
  assumes "s = generate_all X fs gen_initial"
  shows "text_buf (GenerateEncodingShader X F (GenerateEncodingShader X F s)) =
           text_buf (GenerateEncodingShader X F s) \<and>
         c_str (text_buf (GenerateEncodingShader X F (GenerateEncodingShader X F s))) =
           c_str (text_buf (GenerateEncodingShader X F s)) \<and>
         \<not> IntensityConstantAdded (GenerateEncodingShader X F s) \<and>
         s_incrementSampleXCount (GenerateEncodingShader X F s) = 0 \<and>
         (recognized F \<longrightarrow>
            (\<forall>s'. \<not> IntensityConstantAdded (dispatch X F s') \<and> s_incrementSampleXCount (dispatch X F s') = 0))"
proof -
  have i: "gen_inv s" unfolding assms by (rule gen_inv_generate_all [OF gen_inv_initial])
  from gen_inv_Generate [OF i, of X F] repeat_same_buffer [OF i, of X F] show ?thesis
    by (simp add: gen_inv_def dispatch_statics)
qed

theorem repeated_generation_same_text_witness:
  "c_str (text_buf (GenerateEncodingShader sample_externals GX_TF_I4
            (GenerateEncodingShader sample_externals GX_TF_I4
               (generate_all sample_externals [GX_TF_RGB565, Other_format 7] gen_initial)))) =
   c_str (text_buf (GenerateEncodingShader sample_externals GX_TF_I4
            (generate_all sample_externals [GX_TF_RGB565, Other_format 7] gen_initial))) \<and>
   recognized GX_TF_I4 \<and>
   s_incrementSampleXCount (WriteI4Encoder sample_externals
      (gen_initial\<lparr>s_incrementSampleXCount := 5, IntensityConstantAdded := True\<rparr>)) = 0"
  using repeated_generation_same_text [OF refl, of sample_externals GX_TF_I4 "[GX_TF_RGB565, Other_format 7]"]
  by simp

end
